theory Spec2Isabelle
  imports Complex_Main "HOL-Library.Sublist" "HOL-Library.Log_Nat" "HOL-Library.AList"
begin

section \<open>Python values used by the handlers of \<^verbatim>\<open>main.py\<close>\<close>

subsection \<open>Strings\<close>

text \<open>
  A Python \<^verbatim>\<open>str\<close> is modelled by its UTF-8 encoding, a \<^typ>\<open>string\<close> of bytes.
  The handlers only search strings for ASCII keywords, compare them with ASCII keys,
  substitute the ASCII placeholder \<^verbatim>\<open>{topic}\<close> and copy them; on well-formed UTF-8 these
  operations agree with the ones on code points, since an ASCII byte never occurs inside
  a multi-byte sequence.

  \<^verbatim>\<open>str.lower()\<close>: the letters A to Z are mapped to a to z. Outside ASCII, exactly two
  characters have a lower-case form that contains an ASCII letter: U+212A (KELVIN SIGN,
  bytes E2 84 AA) becomes \<^verbatim>\<open>k\<close>, and U+0130 (bytes C4 B0) becomes \<^verbatim>\<open>i\<close> followed by U+0307
  (bytes CC 87). Both are modelled. Every other character outside ASCII is left as it
  is: its lower-case form has no ASCII byte, lower-cased text is never returned by a
  handler, and so the difference cannot be observed in a response.
\<close>

definition ascii_uppercase :: string where
  "ascii_uppercase = ''ABCDEFGHIJKLMNOPQRSTUVWXYZ''"

definition ascii_lowercase :: string where
  "ascii_lowercase = ''abcdefghijklmnopqrstuvwxyz''"

definition lower_char :: "char \<Rightarrow> char" where
  "lower_char c = (case map_of (zip ascii_uppercase ascii_lowercase) c of None \<Rightarrow> c | Some d \<Rightarrow> d)"

fun lower :: "string \<Rightarrow> string" where
  "lower [] = []"
| "lower (c # cs) =
     (if c = CHR 0xE2 \<and> take 2 cs = [CHR 0x84, CHR 0xAA] then CHR ''k'' # lower (drop 2 cs)
      else if c = CHR 0xC4 \<and> take 1 cs = [CHR 0xB0]
        then CHR ''i'' # CHR 0xCC # CHR 0x87 # lower (drop 1 cs)
      else lower_char c # lower cs)"

text \<open>\<^verbatim>\<open>sub in s\<close>: \<open>sub\<close> occurs in \<open>s\<close> as a contiguous substring.\<close>

fun str_in :: "string \<Rightarrow> string \<Rightarrow> bool" where
  "str_in sub [] = (sub = [])"
| "str_in sub (c # cs) = (prefix sub (c # cs) \<or> str_in sub cs)"

text \<open>
  \<^verbatim>\<open>s.replace(old, new)\<close>: the occurrences of \<open>old\<close> are found from left to right without
  overlap; with an empty \<open>old\<close> Python puts \<open>new\<close> before every character and at the end.
\<close>

fun replace :: "string \<Rightarrow> string \<Rightarrow> string \<Rightarrow> string" where
  "replace old new [] = (if old = [] then new else [])"
| "replace old new (c # cs) =
     (if old = [] then new @ c # replace old new cs
      else if prefix old (c # cs) then new @ replace old new (drop (length old - 1) cs)
      else c # replace old new cs)"

subsection \<open>Exceptions and the handlers' \<^verbatim>\<open>except Exception\<close> clause\<close>

datatype py_exception =
    ZeroDivisionError string
  | OverflowError string
  | KeyError string
  | TypeError string

text \<open>
  \<^verbatim>\<open>str(e)\<close>. For a \<^verbatim>\<open>KeyError\<close> it is the \<^verbatim>\<open>repr\<close> of the key, which for the keys of this
  program (ASCII letters and spaces) is the key between single quotes.
\<close>

fun str_exc :: "py_exception \<Rightarrow> string" where
  "str_exc (ZeroDivisionError m) = m"
| "str_exc (OverflowError m) = m"
| "str_exc (KeyError k) = [CHR 0x27] @ k @ [CHR 0x27]"
| "str_exc (TypeError m) = m"

datatype http_exception = HTTPException (status_code: nat) (detail: string)

text \<open>Sequencing of statements that may raise.\<close>

fun bind_exc :: "py_exception + 'a \<Rightarrow> ('a \<Rightarrow> py_exception + 'b) \<Rightarrow> py_exception + 'b" where
  "bind_exc (Inl e) f = Inl e"
| "bind_exc (Inr x) f = f x"

text \<open>
  \<^verbatim>\<open>try: ... except Exception as e: raise HTTPException(status_code=500, detail=str(e))\<close>,
  the frame around the body of each of the three handlers.
\<close>

fun try_except :: "py_exception + 'a \<Rightarrow> http_exception + 'a" where
  "try_except (Inl e) = Inl (HTTPException 500 (str_exc e))"
| "try_except (Inr r) = Inr r"

text \<open>Dictionaries with string keys, in insertion order.\<close>

definition getitem :: "(string \<times> 'v) list \<Rightarrow> string \<Rightarrow> py_exception + 'v" where
  "getitem d k = (case map_of d k of None \<Rightarrow> Inl (KeyError k) | Some v \<Rightarrow> Inr v)"

subsection \<open>Floating point\<close>

text \<open>
  A Python \<^verbatim>\<open>float\<close> is an IEEE 754 binary64 number. A finite one is modelled by the
  rational number it denotes (the sign of zero is not kept: no comparison depends on
  it), and every operation rounds the exact result to the nearest double, ties to even.
\<close>

datatype pyfloat = Finite rat | Inf bool | NaN

definition round_half_even :: "rat \<Rightarrow> int" where
  "round_half_even x =
     (let f = \<lfloor>x\<rfloor>; d = x - of_int f
      in if d < 1 / 2 then f else if 1 / 2 < d then f + 1 else if even f then f else f + 1)"

definition pow2 :: "int \<Rightarrow> rat" where
  "pow2 e = (if 0 \<le> e then 2 ^ nat e else 1 / 2 ^ nat (- e))"

text \<open>For \<open>0 < x\<close>, the exponent \<open>e\<close> with \<open>2 ^ e \<le> x < 2 ^ (e + 1)\<close>.\<close>

definition ilog2 :: "rat \<Rightarrow> int" where
  "ilog2 x = (if 1 \<le> x then bitlen \<lfloor>x\<rfloor> - 1 else - bitlen (\<lceil>1 / x\<rceil> - 1))"

text \<open>
  Rounding to binary64: 53 significant bits, the least exponent \<open>-1022\<close> (below it the
  spacing stays \<open>2 ^ (-1074)\<close>, the subnormal numbers), and overflow to infinity when the
  rounded value reaches \<open>2 ^ 1024\<close>.
\<close>

definition round_double :: "rat \<Rightarrow> pyfloat" where
  "round_double x =
     (if x = 0 then Finite 0
      else let e = max (ilog2 \<bar>x\<bar>) (- 1022);
               ulp = pow2 (e - 52);
               v = of_int (round_half_even (x / ulp)) * ulp
           in if 2 ^ 1024 \<le> \<bar>v\<bar> then Inf (0 < x) else Finite v)"

text \<open>\<^verbatim>\<open>a / b\<close> on two \<^verbatim>\<open>int\<close>s: the correctly rounded quotient.\<close>

definition int_true_div :: "int \<Rightarrow> int \<Rightarrow> py_exception + pyfloat" where
  "int_true_div a b =
     (if b = 0 then Inl (ZeroDivisionError ''division by zero'')
      else case round_double (of_int a / of_int b) of
             Finite v \<Rightarrow> Inr (Finite v)
           | _ \<Rightarrow> Inl (OverflowError ''integer division result too large for a float''))"

text \<open>The conversion of an \<^verbatim>\<open>int\<close> operand of a mixed operation.\<close>

definition int_to_float :: "int \<Rightarrow> py_exception + pyfloat" where
  "int_to_float a =
     (case round_double (of_int a) of
        Finite v \<Rightarrow> Inr (Finite v)
      | _ \<Rightarrow> Inl (OverflowError ''int too large to convert to float''))"

fun float_mul :: "pyfloat \<Rightarrow> pyfloat \<Rightarrow> pyfloat" where
  "float_mul (Finite a) (Finite b) = round_double (a * b)"
| "float_mul (Finite a) (Inf s) = (if a = 0 then NaN else Inf (s = (0 < a)))"
| "float_mul (Inf s) (Finite b) = (if b = 0 then NaN else Inf (s = (0 < b)))"
| "float_mul (Inf s) (Inf t) = Inf (s = t)"
| "float_mul _ _ = NaN"

fun float_truediv :: "pyfloat \<Rightarrow> pyfloat \<Rightarrow> py_exception + pyfloat" where
  "float_truediv a (Finite b) =
     (if b = 0 then Inl (ZeroDivisionError ''float division by zero'')
      else case a of Finite x \<Rightarrow> Inr (round_double (x / b))
                   | Inf s \<Rightarrow> Inr (Inf (s = (0 < b)))
                   | NaN \<Rightarrow> Inr NaN)"
| "float_truediv (Finite a) (Inf t) = Inr (Finite 0)"
| "float_truediv _ _ = Inr NaN"

text \<open>\<^verbatim>\<open>a / b\<close> with an \<^verbatim>\<open>int\<close> on the left and a \<^verbatim>\<open>float\<close> on the right.\<close>

definition int_truediv_float :: "int \<Rightarrow> pyfloat \<Rightarrow> py_exception + pyfloat" where
  "int_truediv_float a b = bind_exc (int_to_float a) (\<lambda>x. float_truediv x b)"

text \<open>
  \<^verbatim>\<open>round(x, ndigits)\<close> for \<open>ndigits \<ge> 0\<close>: the exact value of the double \<open>x\<close> is rounded
  to \<open>ndigits\<close> decimals, ties to even, and the decimal result is converted to the
  nearest double. Infinities and NaN round to themselves.
\<close>

fun float_round :: "pyfloat \<Rightarrow> nat \<Rightarrow> pyfloat" where
  "float_round (Finite x) ndigits =
     round_double (of_int (round_half_even (x * 10 ^ ndigits)) / 10 ^ ndigits)"
| "float_round x ndigits = x"

fun float_lt :: "pyfloat \<Rightarrow> pyfloat \<Rightarrow> bool" where
  "float_lt (Finite a) (Finite b) = (a < b)"
| "float_lt (Finite a) (Inf t) = t"
| "float_lt (Inf s) (Finite b) = (\<not> s)"
| "float_lt (Inf s) (Inf t) = (\<not> s \<and> t)"
| "float_lt _ _ = False"

fun float_le :: "pyfloat \<Rightarrow> pyfloat \<Rightarrow> bool" where
  "float_le (Finite a) (Finite b) = (a \<le> b)"
| "float_le (Finite a) (Inf t) = t"
| "float_le (Inf s) (Finite b) = (\<not> s)"
| "float_le (Inf s) (Inf t) = (s \<longrightarrow> t)"
| "float_le _ _ = False"

subsection \<open>The state that outlives a call\<close>

text \<open>
  What a handler could read or change beyond its own request: the objects already in
  the store (lists and dictionaries, addressed by their position) and the state of the
  generator of the imported module \<^verbatim>\<open>random\<close>.
\<close>

datatype pyobj = ListObj "string list" | DictObj "(string \<times> nat) list"

record process =
  heap :: "pyobj list"
  random_state :: nat


section \<open>Content generation: \<^verbatim>\<open>generate_content\<close>\<close>

record content_request =
  username :: string
  topic :: string
  language :: string

record content_response =
  content :: string

text \<open>The template texts of the dictionary \<^verbatim>\<open>content_templates\<close>, as UTF-8.\<close>

definition english_artificial_intelligence :: string where
  "english_artificial_intelligence =
     ''# The Future of Artificial Intelligence\<newline>'' @
     ''\<newline>'' @
     ''Artificial Intelligence (AI) is revolutionizing the way we live and work. '' @
     ''From self-driving cars to virtual assistants, AI is becoming an integral '' @
     ''part of our daily lives.\<newline>'' @
     ''\<newline>'' @
     ''## Key Areas of AI Impact:\<newline>'' @
     ''1. **Healthcare**: AI-powered diagnosis and drug discovery\<newline>'' @
     ''2. **Education**: Personalized learning experiences\<newline>'' @
     ''3. **Business**: Automated decision-making and analytics\<newline>'' @
     ''4. **Environment**: Climate change prediction and solutions\<newline>'' @
     ''\<newline>'' @
     ''## Challenges Ahead:\<newline>'' @
     ''- Ethical considerations and bias in AI\<newline>'' @
     ''- Privacy concerns\<newline>'' @
     ''- Job displacement vs. job creation\<newline>'' @
     ''\<newline>'' @
     ''The future of AI is both exciting and challenging. As we continue to develop '' @
     ''these technologies, it's crucial to ensure they benefit humanity as a whole.''"

definition english_climate_change :: string where
  "english_climate_change =
     ''# Understanding Climate Change: A Call to Action\<newline>'' @
     ''\<newline>'' @
     ''Climate change is one of the most pressing issues of our time. The Earth's '' @
     ''temperature has risen significantly over the past century, leading to severe '' @
     ''environmental consequences.\<newline>'' @
     ''\<newline>'' @
     ''## Key Facts:\<newline>'' @
     ''- Global temperatures have risen by 1.1'' @ [CHR 0xC2, CHR 0xB0] @
     ''C since pre-industrial times\<newline>'' @
     ''- Sea levels are rising at an accelerating rate\<newline>'' @
     ''- Extreme weather events are becoming more frequent\<newline>'' @
     ''\<newline>'' @
     ''## What Can We Do?\<newline>'' @
     ''1. Reduce carbon emissions\<newline>'' @
     ''2. Switch to renewable energy\<newline>'' @
     ''3. Practice sustainable living\<newline>'' @
     ''4. Support environmental policies\<newline>'' @
     ''\<newline>'' @
     ''Every action counts in the fight against climate change. Together, we can '' @
     ''make a difference.''"

definition english_default :: string where
  "english_default =
     ''# {topic}\<newline>'' @
     ''\<newline>'' @
     ''Here's some interesting information about {topic}:\<newline>'' @
     ''\<newline>'' @
     ''## Key Points:\<newline>'' @
     [CHR 0xE2, CHR 0x80, CHR 0xA2] @
     '' {topic} is an important topic in today's world\<newline>'' @
     [CHR 0xE2, CHR 0x80, CHR 0xA2] @ '' It affects various aspects of our lives\<newline>'' @
     [CHR 0xE2, CHR 0x80, CHR 0xA2] @
     '' Understanding it better can help us make informed decisions\<newline>'' @
     ''\<newline>'' @
     ''## Why It Matters:\<newline>'' @
     ''The significance of {topic} cannot be overstated. It plays a crucial role '' @
     ''in shaping our future and the world around us.\<newline>'' @
     ''\<newline>'' @
     ''## Take Action:\<newline>'' @
     ''Learn more about {topic} and share this knowledge with others. Every conversation '' @
     ''makes a difference!''"

definition hindi_default :: string where
  "hindi_default =
     ''# {topic} '' @ [CHR 0xE0, CHR 0xA4, CHR 0x95, CHR 0xE0, CHR 0xA5, CHR 0x87] @ '' '' @
     [CHR 0xE0, CHR 0xA4, CHR 0xAC, CHR 0xE0, CHR 0xA4, CHR 0xBE, CHR 0xE0, CHR 0xA4, CHR 0xB0] @
     [CHR 0xE0, CHR 0xA5, CHR 0x87] @ '' '' @
     [CHR 0xE0, CHR 0xA4, CHR 0xAE, CHR 0xE0, CHR 0xA5, CHR 0x87, CHR 0xE0, CHR 0xA4, CHR 0x82] @
     '' '' @
     [CHR 0xE0, CHR 0xA4, CHR 0x9C, CHR 0xE0, CHR 0xA4, CHR 0xBE, CHR 0xE0, CHR 0xA4, CHR 0xA8] @
     [CHR 0xE0, CHR 0xA4, CHR 0x95, CHR 0xE0, CHR 0xA4, CHR 0xBE, CHR 0xE0, CHR 0xA4, CHR 0xB0] @
     [CHR 0xE0, CHR 0xA5, CHR 0x80] @ ''\<newline>'' @
     ''\<newline>'' @
     ''{topic} '' @ [CHR 0xE0, CHR 0xA4, CHR 0x86, CHR 0xE0, CHR 0xA4, CHR 0x9C] @ '' '' @
     [CHR 0xE0, CHR 0xA4, CHR 0x95, CHR 0xE0, CHR 0xA5, CHR 0x87] @ '' '' @
     [CHR 0xE0, CHR 0xA4, CHR 0xB8, CHR 0xE0, CHR 0xA4, CHR 0xAE, CHR 0xE0, CHR 0xA4, CHR 0xAF] @
     '' '' @ [CHR 0xE0, CHR 0xA4, CHR 0x95, CHR 0xE0, CHR 0xA4, CHR 0xBE] @ '' '' @
     [CHR 0xE0, CHR 0xA4, CHR 0x8F, CHR 0xE0, CHR 0xA4, CHR 0x95] @ '' '' @
     [CHR 0xE0, CHR 0xA4, CHR 0xAE, CHR 0xE0, CHR 0xA4, CHR 0xB9, CHR 0xE0, CHR 0xA4, CHR 0xA4] @
     [CHR 0xE0, CHR 0xA5, CHR 0x8D, CHR 0xE0, CHR 0xA4, CHR 0xB5, CHR 0xE0, CHR 0xA4, CHR 0xAA] @
     [CHR 0xE0, CHR 0xA5, CHR 0x82, CHR 0xE0, CHR 0xA4, CHR 0xB0, CHR 0xE0, CHR 0xA5, CHR 0x8D] @
     [CHR 0xE0, CHR 0xA4, CHR 0xA3] @ '' '' @
     [CHR 0xE0, CHR 0xA4, CHR 0xB5, CHR 0xE0, CHR 0xA4, CHR 0xBF, CHR 0xE0, CHR 0xA4, CHR 0xB7] @
     [CHR 0xE0, CHR 0xA4, CHR 0xAF] @ '' '' @
     [CHR 0xE0, CHR 0xA4, CHR 0xB9, CHR 0xE0, CHR 0xA5, CHR 0x88, CHR 0xE0, CHR 0xA5, CHR 0xA4] @
     '' '' @
     [CHR 0xE0, CHR 0xA4, CHR 0x86, CHR 0xE0, CHR 0xA4, CHR 0x87, CHR 0xE0, CHR 0xA4, CHR 0x8F] @
     '' '' @
     [CHR 0xE0, CHR 0xA4, CHR 0x9C, CHR 0xE0, CHR 0xA4, CHR 0xBE, CHR 0xE0, CHR 0xA4, CHR 0xA8] @
     [CHR 0xE0, CHR 0xA4, CHR 0xA4, CHR 0xE0, CHR 0xA5, CHR 0x87] @ '' '' @
     [CHR 0xE0, CHR 0xA4, CHR 0xB9, CHR 0xE0, CHR 0xA5, CHR 0x88, CHR 0xE0, CHR 0xA4, CHR 0x82] @
     '' '' @
     [CHR 0xE0, CHR 0xA4, CHR 0x87, CHR 0xE0, CHR 0xA4, CHR 0xB8, CHR 0xE0, CHR 0xA4, CHR 0x95] @
     [CHR 0xE0, CHR 0xA5, CHR 0x87] @ '' '' @
     [CHR 0xE0, CHR 0xA4, CHR 0xAC, CHR 0xE0, CHR 0xA4, CHR 0xBE, CHR 0xE0, CHR 0xA4, CHR 0xB0] @
     [CHR 0xE0, CHR 0xA5, CHR 0x87] @ '' '' @
     [CHR 0xE0, CHR 0xA4, CHR 0xAE, CHR 0xE0, CHR 0xA5, CHR 0x87, CHR 0xE0, CHR 0xA4, CHR 0x82] @
     '':\<newline>'' @
     ''\<newline>'' @
     ''## '' @
     [CHR 0xE0, CHR 0xA4, CHR 0xAE, CHR 0xE0, CHR 0xA5, CHR 0x81, CHR 0xE0, CHR 0xA4, CHR 0x96] @
     [CHR 0xE0, CHR 0xA5, CHR 0x8D, CHR 0xE0, CHR 0xA4, CHR 0xAF] @ '' '' @
     [CHR 0xE0, CHR 0xA4, CHR 0xAC, CHR 0xE0, CHR 0xA4, CHR 0xBF, CHR 0xE0, CHR 0xA4, CHR 0x82] @
     [CHR 0xE0, CHR 0xA4, CHR 0xA6, CHR 0xE0, CHR 0xA5, CHR 0x81] @ '':\<newline>'' @
     [CHR 0xE2, CHR 0x80, CHR 0xA2] @ '' {topic} '' @
     [CHR 0xE0, CHR 0xA4, CHR 0xB9, CHR 0xE0, CHR 0xA4, CHR 0xAE, CHR 0xE0, CHR 0xA4, CHR 0xBE] @
     [CHR 0xE0, CHR 0xA4, CHR 0xB0, CHR 0xE0, CHR 0xA5, CHR 0x87] @ '' '' @
     [CHR 0xE0, CHR 0xA4, CHR 0xA6, CHR 0xE0, CHR 0xA5, CHR 0x88, CHR 0xE0, CHR 0xA4, CHR 0xA8] @
     [CHR 0xE0, CHR 0xA4, CHR 0xBF, CHR 0xE0, CHR 0xA4, CHR 0x95] @ '' '' @
     [CHR 0xE0, CHR 0xA4, CHR 0x9C, CHR 0xE0, CHR 0xA5, CHR 0x80, CHR 0xE0, CHR 0xA4, CHR 0xB5] @
     [CHR 0xE0, CHR 0xA4, CHR 0xA8] @ '' '' @
     [CHR 0xE0, CHR 0xA4, CHR 0x95, CHR 0xE0, CHR 0xA5, CHR 0x8B] @ '' '' @
     [CHR 0xE0, CHR 0xA4, CHR 0xAA, CHR 0xE0, CHR 0xA5, CHR 0x8D, CHR 0xE0, CHR 0xA4, CHR 0xB0] @
     [CHR 0xE0, CHR 0xA4, CHR 0xAD, CHR 0xE0, CHR 0xA4, CHR 0xBE, CHR 0xE0, CHR 0xA4, CHR 0xB5] @
     [CHR 0xE0, CHR 0xA4, CHR 0xBF, CHR 0xE0, CHR 0xA4, CHR 0xA4] @ '' '' @
     [CHR 0xE0, CHR 0xA4, CHR 0x95, CHR 0xE0, CHR 0xA4, CHR 0xB0, CHR 0xE0, CHR 0xA4, CHR 0xA4] @
     [CHR 0xE0, CHR 0xA4, CHR 0xBE] @ '' '' @
     [CHR 0xE0, CHR 0xA4, CHR 0xB9, CHR 0xE0, CHR 0xA5, CHR 0x88] @ ''\<newline>'' @
     [CHR 0xE2, CHR 0x80, CHR 0xA2] @ '' '' @
     [CHR 0xE0, CHR 0xA4, CHR 0x87, CHR 0xE0, CHR 0xA4, CHR 0xB8, CHR 0xE0, CHR 0xA4, CHR 0x95] @
     [CHR 0xE0, CHR 0xA5, CHR 0x80] @ '' '' @
     [CHR 0xE0, CHR 0xA4, CHR 0xB8, CHR 0xE0, CHR 0xA4, CHR 0xAE, CHR 0xE0, CHR 0xA4, CHR 0x9D] @
     '' '' @ [CHR 0xE0, CHR 0xA4, CHR 0xB8, CHR 0xE0, CHR 0xA5, CHR 0x87] @ '' '' @
     [CHR 0xE0, CHR 0xA4, CHR 0xB9, CHR 0xE0, CHR 0xA4, CHR 0xAE] @ '' '' @
     [CHR 0xE0, CHR 0xA4, CHR 0xAC, CHR 0xE0, CHR 0xA5, CHR 0x87, CHR 0xE0, CHR 0xA4, CHR 0xB9] @
     [CHR 0xE0, CHR 0xA4, CHR 0xA4, CHR 0xE0, CHR 0xA4, CHR 0xB0] @ '' '' @
     [CHR 0xE0, CHR 0xA4, CHR 0xA8, CHR 0xE0, CHR 0xA4, CHR 0xBF, CHR 0xE0, CHR 0xA4, CHR 0xB0] @
     [CHR 0xE0, CHR 0xA5, CHR 0x8D, CHR 0xE0, CHR 0xA4, CHR 0xA3, CHR 0xE0, CHR 0xA4, CHR 0xAF] @
     '' '' @ [CHR 0xE0, CHR 0xA4, CHR 0xB2, CHR 0xE0, CHR 0xA5, CHR 0x87] @ '' '' @
     [CHR 0xE0, CHR 0xA4, CHR 0xB8, CHR 0xE0, CHR 0xA4, CHR 0x95, CHR 0xE0, CHR 0xA4, CHR 0xA4] @
     [CHR 0xE0, CHR 0xA5, CHR 0x87] @ '' '' @
     [CHR 0xE0, CHR 0xA4, CHR 0xB9, CHR 0xE0, CHR 0xA5, CHR 0x88, CHR 0xE0, CHR 0xA4, CHR 0x82] @
     ''\<newline>'' @
     [CHR 0xE2, CHR 0x80, CHR 0xA2] @ '' '' @
     [CHR 0xE0, CHR 0xA4, CHR 0xAF, CHR 0xE0, CHR 0xA4, CHR 0xB9] @ '' '' @
     [CHR 0xE0, CHR 0xA4, CHR 0xAD, CHR 0xE0, CHR 0xA4, CHR 0xB5, CHR 0xE0, CHR 0xA4, CHR 0xBF] @
     [CHR 0xE0, CHR 0xA4, CHR 0xB7, CHR 0xE0, CHR 0xA5, CHR 0x8D, CHR 0xE0, CHR 0xA4, CHR 0xAF] @
     '' '' @ [CHR 0xE0, CHR 0xA4, CHR 0x95, CHR 0xE0, CHR 0xA5, CHR 0x87] @ '' '' @
     [CHR 0xE0, CHR 0xA4, CHR 0xB2, CHR 0xE0, CHR 0xA4, CHR 0xBF, CHR 0xE0, CHR 0xA4, CHR 0x8F] @
     '' '' @
     [CHR 0xE0, CHR 0xA4, CHR 0xAE, CHR 0xE0, CHR 0xA4, CHR 0xB9, CHR 0xE0, CHR 0xA4, CHR 0xA4] @
     [CHR 0xE0, CHR 0xA5, CHR 0x8D, CHR 0xE0, CHR 0xA4, CHR 0xB5, CHR 0xE0, CHR 0xA4, CHR 0xAA] @
     [CHR 0xE0, CHR 0xA5, CHR 0x82, CHR 0xE0, CHR 0xA4, CHR 0xB0, CHR 0xE0, CHR 0xA5, CHR 0x8D] @
     [CHR 0xE0, CHR 0xA4, CHR 0xA3] @ '' '' @
     [CHR 0xE0, CHR 0xA4, CHR 0xB9, CHR 0xE0, CHR 0xA5, CHR 0x88] @ ''\<newline>'' @
     ''\<newline>'' @
     ''## '' @
     [CHR 0xE0, CHR 0xA4, CHR 0x95, CHR 0xE0, CHR 0xA5, CHR 0x8D, CHR 0xE0, CHR 0xA4, CHR 0xAF] @
     [CHR 0xE0, CHR 0xA5, CHR 0x8B, CHR 0xE0, CHR 0xA4, CHR 0x82] @ '' '' @
     [CHR 0xE0, CHR 0xA4, CHR 0x9C, CHR 0xE0, CHR 0xA4, CHR 0xB0, CHR 0xE0, CHR 0xA5, CHR 0x82] @
     [CHR 0xE0, CHR 0xA4, CHR 0xB0, CHR 0xE0, CHR 0xA5, CHR 0x80] @ '' '' @
     [CHR 0xE0, CHR 0xA4, CHR 0xB9, CHR 0xE0, CHR 0xA5, CHR 0x88] @ '':\<newline>'' @
     ''{topic} '' @ [CHR 0xE0, CHR 0xA4, CHR 0x95, CHR 0xE0, CHR 0xA5, CHR 0x80] @ '' '' @
     [CHR 0xE0, CHR 0xA4, CHR 0x85, CHR 0xE0, CHR 0xA4, CHR 0xB9, CHR 0xE0, CHR 0xA4, CHR 0xAE] @
     [CHR 0xE0, CHR 0xA4, CHR 0xBF, CHR 0xE0, CHR 0xA4, CHR 0xAF, CHR 0xE0, CHR 0xA4, CHR 0xA4] @
     '' '' @ [CHR 0xE0, CHR 0xA4, CHR 0x95, CHR 0xE0, CHR 0xA5, CHR 0x8B] @ '' '' @
     [CHR 0xE0, CHR 0xA4, CHR 0x95, CHR 0xE0, CHR 0xA4, CHR 0xAE] @ '' '' @
     [CHR 0xE0, CHR 0xA4, CHR 0x95, CHR 0xE0, CHR 0xA4, CHR 0xB0, CHR 0xE0, CHR 0xA4, CHR 0x95] @
     [CHR 0xE0, CHR 0xA5, CHR 0x87] @ '' '' @
     [CHR 0xE0, CHR 0xA4, CHR 0xA8, CHR 0xE0, CHR 0xA4, CHR 0xB9, CHR 0xE0, CHR 0xA5, CHR 0x80] @
     [CHR 0xE0, CHR 0xA4, CHR 0x82] @ '' '' @
     [CHR 0xE0, CHR 0xA4, CHR 0x86, CHR 0xE0, CHR 0xA4, CHR 0x82, CHR 0xE0, CHR 0xA4, CHR 0x95] @
     [CHR 0xE0, CHR 0xA4, CHR 0xBE] @ '' '' @
     [CHR 0xE0, CHR 0xA4, CHR 0x9C, CHR 0xE0, CHR 0xA4, CHR 0xBE] @ '' '' @
     [CHR 0xE0, CHR 0xA4, CHR 0xB8, CHR 0xE0, CHR 0xA4, CHR 0x95, CHR 0xE0, CHR 0xA4, CHR 0xA4] @
     [CHR 0xE0, CHR 0xA4, CHR 0xBE, CHR 0xE0, CHR 0xA5, CHR 0xA4] @ '' '' @
     [CHR 0xE0, CHR 0xA4, CHR 0xAF, CHR 0xE0, CHR 0xA4, CHR 0xB9] @ '' '' @
     [CHR 0xE0, CHR 0xA4, CHR 0xB9, CHR 0xE0, CHR 0xA4, CHR 0xAE, CHR 0xE0, CHR 0xA4, CHR 0xBE] @
     [CHR 0xE0, CHR 0xA4, CHR 0xB0, CHR 0xE0, CHR 0xA5, CHR 0x87] @ '' '' @
     [CHR 0xE0, CHR 0xA4, CHR 0xAD, CHR 0xE0, CHR 0xA4, CHR 0xB5, CHR 0xE0, CHR 0xA4, CHR 0xBF] @
     [CHR 0xE0, CHR 0xA4, CHR 0xB7, CHR 0xE0, CHR 0xA5, CHR 0x8D, CHR 0xE0, CHR 0xA4, CHR 0xAF] @
     '' '' @ [CHR 0xE0, CHR 0xA4, CHR 0x95, CHR 0xE0, CHR 0xA5, CHR 0x8B] @ '' '' @
     [CHR 0xE0, CHR 0xA4, CHR 0x86, CHR 0xE0, CHR 0xA4, CHR 0x95, CHR 0xE0, CHR 0xA4, CHR 0xBE] @
     [CHR 0xE0, CHR 0xA4, CHR 0xB0] @ '' '' @
     [CHR 0xE0, CHR 0xA4, CHR 0xA6, CHR 0xE0, CHR 0xA5, CHR 0x87, CHR 0xE0, CHR 0xA4, CHR 0xA8] @
     [CHR 0xE0, CHR 0xA5, CHR 0x87] @ '' '' @
     [CHR 0xE0, CHR 0xA4, CHR 0xAE, CHR 0xE0, CHR 0xA5, CHR 0x87, CHR 0xE0, CHR 0xA4, CHR 0x82] @
     '' '' @
     [CHR 0xE0, CHR 0xA4, CHR 0xAE, CHR 0xE0, CHR 0xA4, CHR 0xB9, CHR 0xE0, CHR 0xA4, CHR 0xA4] @
     [CHR 0xE0, CHR 0xA5, CHR 0x8D, CHR 0xE0, CHR 0xA4, CHR 0xB5, CHR 0xE0, CHR 0xA4, CHR 0xAA] @
     [CHR 0xE0, CHR 0xA5, CHR 0x82, CHR 0xE0, CHR 0xA4, CHR 0xB0, CHR 0xE0, CHR 0xA5, CHR 0x8D] @
     [CHR 0xE0, CHR 0xA4, CHR 0xA3] @ '' '' @
     [CHR 0xE0, CHR 0xA4, CHR 0xAD, CHR 0xE0, CHR 0xA5, CHR 0x82, CHR 0xE0, CHR 0xA4, CHR 0xAE] @
     [CHR 0xE0, CHR 0xA4, CHR 0xBF, CHR 0xE0, CHR 0xA4, CHR 0x95, CHR 0xE0, CHR 0xA4, CHR 0xBE] @
     '' '' @
     [CHR 0xE0, CHR 0xA4, CHR 0xA8, CHR 0xE0, CHR 0xA4, CHR 0xBF, CHR 0xE0, CHR 0xA4, CHR 0xAD] @
     [CHR 0xE0, CHR 0xA4, CHR 0xBE, CHR 0xE0, CHR 0xA4, CHR 0xA4, CHR 0xE0, CHR 0xA4, CHR 0xBE] @
     '' '' @
     [CHR 0xE0, CHR 0xA4, CHR 0xB9, CHR 0xE0, CHR 0xA5, CHR 0x88, CHR 0xE0, CHR 0xA5, CHR 0xA4]"

definition content_templates :: "(string \<times> (string \<times> string) list) list" where
  "content_templates =
     [(''english'',
        [(''Artificial Intelligence'', english_artificial_intelligence),
         (''Climate Change'', english_climate_change),
         (''default'', english_default)]),
      (''hindi'',
        [(''default'', hindi_default)])]"

text \<open>\<^verbatim>\<open>k in d\<close> and \<^verbatim>\<open>d.get(k, default)\<close> on a dictionary.\<close>

definition dict_contains :: "(string \<times> 'v) list \<Rightarrow> string \<Rightarrow> bool" where
  "dict_contains d k = (map_of d k \<noteq> None)"

definition dict_get :: "(string \<times> 'v) list \<Rightarrow> string \<Rightarrow> 'v \<Rightarrow> 'v" where
  "dict_get d k dflt = (case map_of d k of None \<Rightarrow> dflt | Some v \<Rightarrow> v)"

definition generate_content_body :: "content_request \<Rightarrow> py_exception + content_response" where
  "generate_content_body request =
     (let lang_key = lower (language request);
          lang_key = (if \<not> dict_contains content_templates lang_key then ''english'' else lang_key)
      in bind_exc (getitem content_templates lang_key) (\<lambda>templates.
           if dict_contains templates (topic request)
           then bind_exc (getitem templates (topic request)) (\<lambda>found. Inr \<lparr>content = found\<rparr>)
           else bind_exc (getitem content_templates ''english'') (\<lambda>english.
                bind_exc (getitem english ''default'') (\<lambda>english_default_template.
                  let default_template = dict_get templates ''default'' english_default_template
                  in Inr \<lparr>content = replace ''{topic}'' (topic request) default_template\<rparr>))))"

definition generate_content ::
  "content_request \<Rightarrow> process \<Rightarrow> (http_exception + content_response) \<times> process" where
  "generate_content request p = (try_except (generate_content_body request), p)"

section \<open>Fitness planning: \<^verbatim>\<open>get_fitness_plan\<close>\<close>

record fitness_request =
  height :: int
  weight :: int
  goal :: string

record fitness_response =
  bmi :: pyfloat
  category :: string
  plan :: "string list"

text \<open>The five plan lists, in the order of the branches that assign them.\<close>

definition plan_lose :: "string list" where
  "plan_lose =
    [[CHR 0xF0, CHR 0x9F, CHR 0x8F, CHR 0x83] @
        '' Cardio: 30-45 minutes daily (running, cycling, swimming)'',
      [CHR 0xF0, CHR 0x9F, CHR 0xA5, CHR 0x97] @
        '' Calorie deficit diet (reduce 500 calories from maintenance)'',
      [CHR 0xF0, CHR 0x9F, CHR 0x92, CHR 0xAA] @ '' Strength training: 3 times a week'',
      [CHR 0xF0, CHR 0x9F, CHR 0xA5, CHR 0xA4] @ '' Drink 3-4 liters of water daily'',
      [CHR 0xF0, CHR 0x9F, CHR 0x98, CHR 0xB4] @ '' Get 7-8 hours of sleep'',
      [CHR 0xF0, CHR 0x9F, CHR 0x93, CHR 0x8A] @ '' Track your progress weekly'']"

definition plan_gain_muscle :: "string list" where
  "plan_gain_muscle =
    [[CHR 0xF0, CHR 0x9F, CHR 0x8F, CHR 0x8B, CHR 0xEF, CHR 0xB8, CHR 0x8F] @
        '' Strength training: 4-5 times a week'',
      [CHR 0xF0, CHR 0x9F, CHR 0x8D, CHR 0x97] @
        '' High protein diet (1.6-2.2g protein per kg bodyweight)'',
      [CHR 0xF0, CHR 0x9F, CHR 0x93, CHR 0x88] @
        '' Calorie surplus (300-500 calories above maintenance)'',
      [CHR 0xF0, CHR 0x9F, CHR 0xA5, CHR 0xA9] @
        '' Include lean meats, eggs, dairy, and legumes'',
      [CHR 0xF0, CHR 0x9F, CHR 0x92, CHR 0xA4] @ '' Rest and recovery are crucial'',
      [CHR 0xF0, CHR 0x9F, CHR 0x93, CHR 0x9D] @ '' Progressive overload in workouts'']"

definition plan_maintain :: "string list" where
  "plan_maintain =
    [[CHR 0xF0, CHR 0x9F, CHR 0x9A, CHR 0xB6] @ '' Active lifestyle: 10,000 steps daily'',
      [CHR 0xE2, CHR 0x9A, CHR 0x96, CHR 0xEF, CHR 0xB8, CHR 0x8F] @
        '' Balanced diet with proper macros'',
      [CHR 0xF0, CHR 0x9F, CHR 0x8F, CHR 0x8B, CHR 0xEF, CHR 0xB8, CHR 0x8F] @
        '' Exercise: 3-4 times a week (mix of cardio and strength)'',
      [CHR 0xF0, CHR 0x9F, CHR 0xA7, CHR 0x98] @ '' Include flexibility training'',
      [CHR 0xF0, CHR 0x9F, CHR 0x92, CHR 0xA7] @ '' Stay hydrated'',
      [CHR 0xF0, CHR 0x9F, CHR 0x93, CHR 0x8A] @ '' Monitor weight weekly'']"

definition plan_endurance :: "string list" where
  "plan_endurance =
    [[CHR 0xF0, CHR 0x9F, CHR 0x8F, CHR 0x83] @ '' Long-distance cardio: 3-4 times a week'',
      [CHR 0xE2, CHR 0x8F, CHR 0xB1, CHR 0xEF, CHR 0xB8, CHR 0x8F] @
        '' Interval training: 2 times a week'',
      [CHR 0xF0, CHR 0x9F, CHR 0x92, CHR 0xAA] @
        '' Light strength training for muscle endurance'',
      [CHR 0xF0, CHR 0x9F, CHR 0x8D, CHR 0x9D] @ '' Complex carbs for sustained energy'',
      [CHR 0xF0, CHR 0x9F, CHR 0xA7, CHR 0x98] @ '' Yoga for flexibility and recovery'',
      [CHR 0xF0, CHR 0x9F, CHR 0x93, CHR 0x88] @ '' Gradually increase intensity'']"

definition plan_general :: "string list" where
  "plan_general =
    [[CHR 0xF0, CHR 0x9F, CHR 0x9A, CHR 0xB6] @ '' Start with 20-30 minutes walking daily'',
      [CHR 0xF0, CHR 0x9F, CHR 0x92, CHR 0xAA] @
        '' Basic bodyweight exercises (push-ups, squats, lunges)'',
      [CHR 0xF0, CHR 0x9F, CHR 0xA5, CHR 0x97] @ '' Eat whole foods, avoid processed items'',
      [CHR 0xF0, CHR 0x9F, CHR 0xA7, CHR 0x98] @ '' Stretch for 10 minutes daily'',
      [CHR 0xF0, CHR 0x9F, CHR 0x92, CHR 0xA7] @ '' Drink plenty of water'',
      [CHR 0xF0, CHR 0x9F, CHR 0x93, CHR 0x88] @ '' Gradually increase workout intensity'']"

text \<open>
  The float literal \<^verbatim>\<open>18.5\<close> is the double \<open>37/2\<close>; the \<^verbatim>\<open>int\<close> literals \<^verbatim>\<open>25\<close> and \<^verbatim>\<open>30\<close> are
  compared with a float by value.
\<close>

definition get_fitness_plan_body :: "fitness_request \<Rightarrow> py_exception + fitness_response" where
  "get_fitness_plan_body request =
     bind_exc (int_true_div (height request) 100) (\<lambda>height_m.
     bind_exc (int_truediv_float (weight request) (float_mul height_m height_m)) (\<lambda>quotient.
       let rounded = float_round quotient 1;
           label =
             (if float_lt rounded (Finite (37 / 2)) then ''Underweight''
              else if float_le (Finite (37 / 2)) rounded \<and> float_lt rounded (Finite 25)
                then ''Normal weight''
              else if float_le (Finite 25) rounded \<and> float_lt rounded (Finite 30)
                then ''Overweight''
              else ''Obese'');
           goal_lower = lower (goal request);
           chosen =
             (if str_in ''lose'' goal_lower then plan_lose
              else if str_in ''gain'' goal_lower \<or> str_in ''muscle'' goal_lower then plan_gain_muscle
              else if str_in ''maintain'' goal_lower then plan_maintain
              else if str_in ''endurance'' goal_lower then plan_endurance
              else plan_general)
       in Inr \<lparr>bmi = rounded, category = label, plan = chosen\<rparr>))"

definition get_fitness_plan ::
  "fitness_request \<Rightarrow> process \<Rightarrow> (http_exception + fitness_response) \<times> process" where
  "get_fitness_plan request p = (try_except (get_fitness_plan_body request), p)"


section \<open>Diet planning: \<^verbatim>\<open>get_disease_diet\<close>\<close>

record disease_request =
  disease :: string
  preference :: "string option"

record disease_response =
  recommended :: "string list"
  avoid :: "string list"

subsection \<open>Statements on the object store\<close>

text \<open>
  The handler builds its tables as dictionaries and lists, binds \<^verbatim>\<open>selected_plan\<close> to
  one of the dictionaries (an alias, not a copy) and assigns into it. A statement is
  therefore a function from the store to a result, or an exception, and the new store.
\<close>

type_synonym 'a action = "pyobj list \<Rightarrow> (py_exception + 'a) \<times> pyobj list"

definition returns :: "'a \<Rightarrow> 'a action" where
  "returns x h = (Inr x, h)"

definition then_do :: "'a action \<Rightarrow> ('a \<Rightarrow> 'b action) \<Rightarrow> 'b action" where
  "then_do m f h = (case m h of (Inl e, h') \<Rightarrow> (Inl e, h') | (Inr x, h') \<Rightarrow> f x h')"

definition deref :: "pyobj list \<Rightarrow> nat \<Rightarrow> pyobj option" where
  "deref h a = (if a < length h then Some (h ! a) else None)"

text \<open>A list display or dictionary display, or a list comprehension: a new object.\<close>

definition new_obj :: "pyobj \<Rightarrow> nat action" where
  "new_obj obj h = (Inr (length h), h @ [obj])"

text \<open>\<^verbatim>\<open>d[k]\<close>, \<^verbatim>\<open>d[k] = v\<close> and the keys of \<^verbatim>\<open>d\<close> in iteration order.\<close>

definition subscript :: "nat \<Rightarrow> string \<Rightarrow> nat action" where
  "subscript d k h =
     (case deref h d of
        Some (DictObj kvs) \<Rightarrow> (getitem kvs k, h)
      | _ \<Rightarrow> (Inl (TypeError ''object is not subscriptable''), h))"

definition setitem :: "nat \<Rightarrow> string \<Rightarrow> nat \<Rightarrow> unit action" where
  "setitem d k v h =
     (case deref h d of
        Some (DictObj kvs) \<Rightarrow> (Inr (), h[d := DictObj (AList.update k v kvs)])
      | _ \<Rightarrow> (Inl (TypeError ''object does not support item assignment''), h))"

definition keys :: "nat \<Rightarrow> string list action" where
  "keys d h =
     (case deref h d of
        Some (DictObj kvs) \<Rightarrow> (Inr (map fst kvs), h)
      | _ \<Rightarrow> (Inl (TypeError ''object is not iterable''), h))"

text \<open>The elements of a list object, and \<^verbatim>\<open>l.extend(ys)\<close>, which changes the object in place.\<close>

definition elements :: "nat \<Rightarrow> string list action" where
  "elements l h =
     (case deref h l of
        Some (ListObj xs) \<Rightarrow> (Inr xs, h)
      | _ \<Rightarrow> (Inl (TypeError ''object is not iterable''), h))"

definition extend :: "nat \<Rightarrow> string list \<Rightarrow> unit action" where
  "extend l ys h =
     (case deref h l of
        Some (ListObj xs) \<Rightarrow> (Inr (), h[l := ListObj (xs @ ys)])
      | _ \<Rightarrow> (Inl (TypeError ''object has no attribute extend''), h))"

text \<open>Truth value of \<^verbatim>\<open>selected_plan\<close>: \<^verbatim>\<open>None\<close> and the empty dictionary are false.\<close>

definition truthy :: "nat option \<Rightarrow> bool action" where
  "truthy v h =
     (case v of
        None \<Rightarrow> (Inr False, h)
      | Some d \<Rightarrow>
          (case deref h d of
             Some (DictObj kvs) \<Rightarrow> (Inr (kvs \<noteq> []), h)
           | Some (ListObj xs) \<Rightarrow> (Inr (xs \<noteq> []), h)
           | None \<Rightarrow> (Inl (TypeError ''no such object''), h)))"

subsection \<open>The tables\<close>

definition diabetes_recommended :: "string list" where
  "diabetes_recommended =
    [''Leafy greens (spinach, kale, lettuce)'',
      ''Whole grains (oats, quinoa, brown rice)'',
      ''Lean proteins (chicken, fish, tofu)'',
      ''Berries and citrus fruits'',
      ''Nuts and seeds (almonds, walnuts, chia seeds)'',
      ''Legumes (beans, lentils, chickpeas)'',
      ''Greek yogurt (unsweetened)'']"

definition diabetes_avoid :: "string list" where
  "diabetes_avoid =
    [''Sugary beverages and sodas'',
      ''White bread and refined flour'',
      ''Processed snacks and sweets'',
      ''Fried foods'',
      ''High-sugar fruits (bananas, grapes, mangoes)'',
      ''Sweetened breakfast cereals'',
      ''Honey, maple syrup, and added sugars'']"

definition hypertension_recommended :: "string list" where
  "hypertension_recommended =
    [''Bananas and avocados (potassium-rich)'',
      ''Leafy greens (spinach, swiss chard)'',
      ''Beets and beetroot juice'',
      ''Oats and whole grains'',
      ''Fatty fish (salmon, mackerel)'',
      ''Garlic and herbs (instead of salt)'',
      ''Low-fat dairy products'']"

definition hypertension_avoid :: "string list" where
  "hypertension_avoid =
    [''High-sodium foods (canned soups, processed meats)'',
      ''Pickled and fermented foods'',
      ''Fast food and restaurant meals'',
      ''Alcohol'',
      ''Caffeine in excess'',
      ''Frozen dinners'',
      ''Salty snacks (chips, pretzels)'']"

definition thyroid_recommended :: "string list" where
  "thyroid_recommended =
    [''Selenium-rich foods (Brazil nuts, tuna)'',
      ''Zinc-rich foods (oysters, beef, chickpeas)'',
      ''Antioxidant-rich berries'',
      ''Bone broth'',
      ''Seaweed (for hypothyroidism - consult doctor)'',
      ''Lean proteins'',
      ''Cruciferous veggies (cooked, not raw)'']"

definition thyroid_avoid :: "string list" where
  "thyroid_avoid =
    [''Soy-based products (can interfere with medication)'',
      ''Excessive iodine supplements'',
      ''Processed foods'',
      ''Gluten (if sensitive)'',
      ''Raw cruciferous vegetables in large amounts'',
      ''Sugar and refined carbs'',
      ''Alcohol'']"

definition heart_disease_recommended :: "string list" where
  "heart_disease_recommended =
    [''Fatty fish (salmon, tuna, mackerel)'',
      ''Oats and barley'',
      ''Berries and cherries'',
      ''Nuts (walnuts, almonds)'',
      ''Olive oil'',
      ''Avocados'',
      ''Dark chocolate (70%+ cocoa)'']"

definition heart_disease_avoid :: "string list" where
  "heart_disease_avoid =
    [''Trans fats (fried foods, baked goods)'',
      ''Red meat and processed meats'',
      ''Full-fat dairy'',
      ''Excessive sodium'',
      ''Sugar-sweetened beverages'',
      ''Refined carbohydrates'',
      ''Excessive alcohol'']"

definition default_recommended :: "string list" where
  "default_recommended =
    [''Fresh fruits and vegetables'',
      ''Lean proteins (chicken, fish, legumes)'',
      ''Whole grains'',
      ''Healthy fats (avocado, nuts, olive oil)'',
      ''Plenty of water'',
      ''Herbal teas'',
      ''Probiotic foods (yogurt, kefir)'']"

definition default_avoid :: "string list" where
  "default_avoid =
    [''Processed foods'',
      ''Excessive sugar'',
      ''Fried and fatty foods'',
      ''Excessive alcohol'',
      ''Caffeine late in the day'',
      ''Artificial additives'',
      ''Highly salted foods'']"

text \<open>\<^verbatim>\<open>{"recommended": [...], "avoid": [...]}\<close>: two new lists and a new dictionary.\<close>

definition new_plan :: "string list \<Rightarrow> string list \<Rightarrow> nat action" where
  "new_plan rec av =
     then_do (new_obj (ListObj rec)) (\<lambda>r.
     then_do (new_obj (ListObj av)) (\<lambda>a.
     new_obj (DictObj [(''recommended'', r), (''avoid'', a)])))"

definition new_diet_plans :: "nat action" where
  "new_diet_plans =
     then_do (new_plan diabetes_recommended diabetes_avoid) (\<lambda>diabetes.
     then_do (new_plan hypertension_recommended hypertension_avoid) (\<lambda>hypertension.
     then_do (new_plan thyroid_recommended thyroid_avoid) (\<lambda>thyroid.
     then_do (new_plan heart_disease_recommended heart_disease_avoid) (\<lambda>heart_disease.
     new_obj (DictObj [(''diabetes'', diabetes), (''hypertension'', hypertension),
                       (''thyroid'', thyroid), (''heart disease'', heart_disease)])))))"

definition new_default_plan :: "nat action" where
  "new_default_plan = new_plan default_recommended default_avoid"

subsection \<open>The handler\<close>

text \<open>
  \<^verbatim>\<open>for key in diet_plans: if key in disease: selected_plan = diet_plans[key]; break\<close>,
  over the keys that are left; the result is \<^verbatim>\<open>selected_plan\<close> after the loop.
\<close>

fun find_plan :: "nat \<Rightarrow> string \<Rightarrow> string list \<Rightarrow> nat option action" where
  "find_plan diet_plans disease_lower [] = returns None"
| "find_plan diet_plans disease_lower (key # rest) =
     (if str_in key disease_lower
      then then_do (subscript diet_plans key) (\<lambda>found. returns (Some found))
      else find_plan diet_plans disease_lower rest)"

text \<open>
  \<^verbatim>\<open>selected_plan["recommended"] = [f for f in selected_plan["recommended"] if keep(f)]\<close>
  and \<^verbatim>\<open>selected_plan["recommended"].extend(ys)\<close> (\<^verbatim>\<open>append(y)\<close> is \<^verbatim>\<open>extend([y])\<close>).
\<close>

definition filter_recommended :: "nat \<Rightarrow> (string \<Rightarrow> bool) \<Rightarrow> unit action" where
  "filter_recommended selected_plan keep =
     then_do (subscript selected_plan ''recommended'') (\<lambda>old.
     then_do (elements old) (\<lambda>fs.
     then_do (new_obj (ListObj (filter keep fs))) (\<lambda>new.
     setitem selected_plan ''recommended'' new)))"

definition extend_recommended :: "nat \<Rightarrow> string list \<Rightarrow> unit action" where
  "extend_recommended selected_plan ys =
     then_do (subscript selected_plan ''recommended'') (\<lambda>l. extend l ys)"

definition adjust_preference :: "string option \<Rightarrow> nat \<Rightarrow> unit action" where
  "adjust_preference preference_field selected_plan =
     (case preference_field of
        None \<Rightarrow> returns ()
      | Some p \<Rightarrow>
          if p \<noteq> [] \<and> p \<noteq> ''No Preference'' then
            let pref = lower p in
            if str_in ''vegetarian'' pref then
              then_do (filter_recommended selected_plan
                         (\<lambda>f. \<not> str_in ''chicken'' (lower f) \<and> \<not> str_in ''fish'' (lower f)))
                (\<lambda>_. extend_recommended selected_plan
                         [''Plant-based proteins (tofu, tempeh, legumes)''])
            else if str_in ''vegan'' pref then
              then_do (filter_recommended selected_plan
                         (\<lambda>f. \<not> str_in ''chicken'' (lower f) \<and> \<not> str_in ''fish'' (lower f)
                              \<and> \<not> str_in ''yogurt'' (lower f) \<and> \<not> str_in ''dairy'' (lower f)))
                (\<lambda>_. extend_recommended selected_plan
                         [''Plant-based proteins'', ''Fortified plant milks''])
            else if str_in ''keto'' pref then
              then_do (filter_recommended selected_plan
                         (\<lambda>f. \<not> str_in ''grains'' (lower f) \<and> \<not> str_in ''oats'' (lower f)))
                (\<lambda>_. extend_recommended selected_plan [''Healthy fats'', ''Low-carb vegetables''])
            else returns ()
          else returns ())"

text \<open>The tables, the selection with its fallback, and the response with its two slices.\<close>

definition build_tables :: "(nat \<times> nat) action" where
  "build_tables =
     then_do new_diet_plans (\<lambda>diet_plans.
     then_do new_default_plan (\<lambda>default_plan.
     returns (diet_plans, default_plan)))"

definition select_plan :: "string \<Rightarrow> nat \<Rightarrow> nat \<Rightarrow> nat action" where
  "select_plan disease_lower diet_plans default_plan =
     then_do (keys diet_plans) (\<lambda>ks.
     then_do (find_plan diet_plans disease_lower ks) (\<lambda>selected_plan.
     then_do (truthy selected_plan) (\<lambda>t.
     returns (case selected_plan of Some d \<Rightarrow> if t then d else default_plan
                                  | None \<Rightarrow> default_plan))))"

definition make_response :: "nat \<Rightarrow> disease_response action" where
  "make_response selected_plan =
     then_do (subscript selected_plan ''recommended'') (\<lambda>r.
     then_do (elements r) (\<lambda>rec.
     then_do (subscript selected_plan ''avoid'') (\<lambda>a.
     then_do (elements a) (\<lambda>av.
     returns \<lparr>recommended = take 8 rec, avoid = take 6 av\<rparr>))))"

definition get_disease_diet_body :: "disease_request \<Rightarrow> disease_response action" where
  "get_disease_diet_body request =
     (let disease_lower = lower (disease request) in
      then_do build_tables (\<lambda>(diet_plans, default_plan).
      then_do (select_plan disease_lower diet_plans default_plan) (\<lambda>selected_plan.
      then_do (adjust_preference (preference request) selected_plan) (\<lambda>_.
      make_response selected_plan))))"

definition get_disease_diet ::
  "disease_request \<Rightarrow> process \<Rightarrow> (http_exception + disease_response) \<times> process" where
  "get_disease_diet request p =
     (case get_disease_diet_body request (heap p) of
        (r, h) \<Rightarrow> (try_except r, p\<lparr>heap := h\<rparr>))"

section \<open>Notions used to state the properties\<close>

text \<open>
  \<open>join sep ps\<close> puts \<open>sep\<close> between the pieces \<open>ps\<close>. \<open>pieces_between old s\<close> cuts \<open>s\<close> at
  the occurrences of \<open>old\<close>, found from left to right: the text before the first
  occurrence, between two successive ones, and after the last.
\<close>

fun join :: "string \<Rightarrow> string list \<Rightarrow> string" where
  "join sep [] = []"
| "join sep [p] = p"
| "join sep (p # q # ps) = p @ sep @ join sep (q # ps)"

fun pieces_between :: "string \<Rightarrow> string \<Rightarrow> string list" where
  "pieces_between old [] = [[]]"
| "pieces_between old (c # cs) =
     (if old \<noteq> [] \<and> prefix old (c # cs) then [] # pieces_between old (drop (length old - 1) cs)
      else case pieces_between old cs of [] \<Rightarrow> [[c]] | p # ps \<Rightarrow> (c # p) # ps)"


text \<open>
  \<open>spelled_in_any_case word s\<close>: \<open>s\<close> is the lower-case word \<open>word\<close> with each of its
  letters in either case.
\<close>

definition spelled_in_any_case :: "string \<Rightarrow> string \<Rightarrow> bool" where
  "spelled_in_any_case word s =
     list_all2 (\<lambda>w c. c = w \<or> (w, c) \<in> set (zip ''abcdefghijklmnopqrstuvwxyz'' ''ABCDEFGHIJKLMNOPQRSTUVWXYZ''))
       word s"

text \<open>
  The body-mass index as a number, \<open>w / (h/100)\<^sup>2\<close>, and the two usual roundings of a
  number to one decimal place.
\<close>

definition exact_bmi :: "int \<Rightarrow> int \<Rightarrow> rat" where
  "exact_bmi h w = of_int w / (of_int h / 100) ^ 2"

definition one_decimal_half_even :: "rat \<Rightarrow> rat" where
  "one_decimal_half_even x = of_int (round_half_even (x * 10)) / 10"

definition one_decimal_half_up :: "rat \<Rightarrow> rat" where
  "one_decimal_half_up x = of_int \<lfloor>x * 10 + 1 / 2\<rfloor> / 10"

text \<open>
  The diet plan for a disease: the first of the keys \<open>diabetes\<close>, \<open>hypertension\<close>,
  \<open>thyroid\<close> and \<open>heart disease\<close> that occurs in the lower-cased disease decides, and the
  default plan is taken when none occurs. A plan is its recommended list and its avoid
  list.
\<close>

definition plan_for_disease :: "string \<Rightarrow> string list \<times> string list" where
  "plan_for_disease d =
     (if sublist ''diabetes'' (lower d) then (diabetes_recommended, diabetes_avoid)
      else if sublist ''hypertension'' (lower d) then (hypertension_recommended, hypertension_avoid)
      else if sublist ''thyroid'' (lower d) then (thyroid_recommended, thyroid_avoid)
      else if sublist ''heart disease'' (lower d) then (heart_disease_recommended, heart_disease_avoid)
      else (default_recommended, default_avoid))"

text \<open>
  The preference filter on a recommended list: at most one of the three branches, in the
  order vegetarian, vegan, keto, by the keyword that occurs in the lower-cased
  preference; no preference, or one without any of the keywords, changes nothing.
\<close>

definition has_preference_keyword :: "string option \<Rightarrow> bool" where
  "has_preference_keyword pref =
     (case pref of
        None \<Rightarrow> False
      | Some p \<Rightarrow> sublist ''vegetarian'' (lower p) \<or> sublist ''vegan'' (lower p)
                    \<or> sublist ''keto'' (lower p))"

definition preference_filter :: "string option \<Rightarrow> string list \<Rightarrow> string list" where
  "preference_filter pref fs =
     (case pref of
        None \<Rightarrow> fs
      | Some p \<Rightarrow>
          if sublist ''vegetarian'' (lower p) then
            filter (\<lambda>f. \<not> sublist ''chicken'' (lower f) \<and> \<not> sublist ''fish'' (lower f)) fs
              @ [''Plant-based proteins (tofu, tempeh, legumes)'']
          else if sublist ''vegan'' (lower p) then
            filter (\<lambda>f. \<not> sublist ''chicken'' (lower f) \<and> \<not> sublist ''fish'' (lower f)
                       \<and> \<not> sublist ''yogurt'' (lower f) \<and> \<not> sublist ''dairy'' (lower f)) fs
              @ [''Plant-based proteins'', ''Fortified plant milks'']
          else if sublist ''keto'' (lower p) then
            filter (\<lambda>f. \<not> sublist ''grains'' (lower f) \<and> \<not> sublist ''oats'' (lower f)) fs
              @ [''Healthy fats'', ''Low-carb vegetables'']
          else fs)"

text \<open>
  The sixteen objects that the handler creates for its tables when the store holds \<open>b\<close>
  objects already, in the order of creation: for each of the four diseases the two lists
  and the plan dictionary, then the dictionary \<^verbatim>\<open>diet_plans\<close>, then the two lists and the
  dictionary of \<^verbatim>\<open>default_plan\<close>. \<open>plan_offset d\<close> is the place among them of the plan
  selected for the disease \<open>d\<close>.
\<close>

definition table_objects :: "nat \<Rightarrow> pyobj list" where
  "table_objects b =
     [ListObj diabetes_recommended, ListObj diabetes_avoid,
      DictObj [(''recommended'', b), (''avoid'', b + 1)],
      ListObj hypertension_recommended, ListObj hypertension_avoid,
      DictObj [(''recommended'', b + 3), (''avoid'', b + 4)],
      ListObj thyroid_recommended, ListObj thyroid_avoid,
      DictObj [(''recommended'', b + 6), (''avoid'', b + 7)],
      ListObj heart_disease_recommended, ListObj heart_disease_avoid,
      DictObj [(''recommended'', b + 9), (''avoid'', b + 10)],
      DictObj [(''diabetes'', b + 2), (''hypertension'', b + 5), (''thyroid'', b + 8),
               (''heart disease'', b + 11)],
      ListObj default_recommended, ListObj default_avoid,
      DictObj [(''recommended'', b + 13), (''avoid'', b + 14)]]"

definition plan_offset :: "string \<Rightarrow> nat" where
  "plan_offset d =
     (if sublist ''diabetes'' (lower d) then 2
      else if sublist ''hypertension'' (lower d) then 5
      else if sublist ''thyroid'' (lower d) then 8
      else if sublist ''heart disease'' (lower d) then 11
      else 15)"

section \<open>Strings: substring test and replacement\<close>

lemma str_in_sublist: "str_in sub s = sublist sub s"
  by (induction s) (auto simp: sublist_Cons_right)

lemma pieces_between_not_Nil: "pieces_between old s \<noteq> []"
  by (induction old s rule: pieces_between.induct) (auto split: list.splits)

lemma join_Cons_Cons: "join sep ((c # p) # ps) = c # join sep (p # ps)"
  by (cases ps) auto

lemma join_Nil_Cons: "ps \<noteq> [] \<Longrightarrow> join sep ([] # ps) = sep @ join sep ps"
  by (cases ps) auto

lemma prefix_drop_rest:
  "old \<noteq> [] \<Longrightarrow> prefix old (c # cs) \<Longrightarrow> old @ drop (length old - Suc 0) cs = c # cs"
  by (cases old) (auto simp: prefix_def)

lemma join_pieces_between: "old \<noteq> [] \<Longrightarrow> join old (pieces_between old s) = s"
proof (induction old s rule: pieces_between.induct)
  case (1 old)
  then show ?case by simp
next
  case (2 old c cs)
  show ?case
  proof (cases "prefix old (c # cs)")
    case True
    with 2 show ?thesis
      by (simp add: join_Nil_Cons pieces_between_not_Nil prefix_drop_rest)
  next
    case False
    obtain p ps where ps: "pieces_between old cs = p # ps"
      using pieces_between_not_Nil [of old cs] by (cases "pieces_between old cs") auto
    with 2 False show ?thesis
      by (simp add: join_Cons_Cons)
  qed
qed

lemma replace_join_pieces: "old \<noteq> [] \<Longrightarrow> replace old new s = join new (pieces_between old s)"
proof (induction old s rule: pieces_between.induct)
  case (1 old)
  then show ?case by simp
next
  case (2 old c cs)
  show ?case
  proof (cases "prefix old (c # cs)")
    case True
    with 2 show ?thesis
      by (simp add: join_Nil_Cons pieces_between_not_Nil)
  next
    case False
    obtain p ps where ps: "pieces_between old cs = p # ps"
      using pieces_between_not_Nil [of old cs] by (cases "pieces_between old cs") auto
    with 2 False show ?thesis
      by (simp add: join_Cons_Cons)
  qed
qed

lemma hd_pieces_prefix: "prefix (hd (pieces_between old s)) s"
  by (induction old s rule: pieces_between.induct) (auto split: list.splits)

lemma pieces_between_free:
  "old \<noteq> [] \<Longrightarrow> p \<in> set (pieces_between old s) \<Longrightarrow> \<not> str_in old p"
proof (induction old s arbitrary: p rule: pieces_between.induct)
  case (1 old)
  then show ?case by simp
next
  case (2 old c cs)
  show ?case
  proof (cases "prefix old (c # cs)")
    case True
    with 2 show ?thesis by auto
  next
    case False
    obtain q qs where qs: "pieces_between old cs = q # qs"
      using pieces_between_not_Nil [of old cs] by (cases "pieces_between old cs") auto
    have q: "prefix q cs"
      using hd_pieces_prefix [of old cs] qs by simp
    from 2 False qs have "p = c # q \<or> p \<in> set qs" by simp
    then show ?thesis
    proof
      assume p: "p = c # q"
      have "\<not> prefix old (c # q)"
        using False q by (meson Cons_prefix_Cons prefix_order.trans)
      moreover have "\<not> str_in old q"
        using 2 False qs by simp
      ultimately show ?thesis using p by simp
    next
      assume "p \<in> set qs"
      with 2 False qs show ?thesis by simp
    qed
  qed
qed


subsection \<open>Lower-casing\<close>

lemma lower_char_letters:
  "lower_char c = CHR ''h'' \<longleftrightarrow> c = CHR ''h'' \<or> c = CHR ''H''"
  "lower_char c = CHR ''i'' \<longleftrightarrow> c = CHR ''i'' \<or> c = CHR ''I''"
  "lower_char c = CHR ''n'' \<longleftrightarrow> c = CHR ''n'' \<or> c = CHR ''N''"
  "lower_char c = CHR ''d'' \<longleftrightarrow> c = CHR ''d'' \<or> c = CHR ''D''"
  by (auto simp: lower_char_def ascii_uppercase_def ascii_lowercase_def split: if_splits)

lemma lower_char_lead_bytes: "lower_char (CHR 0xE2) = CHR 0xE2" "lower_char (CHR 0xC4) = CHR 0xC4"
  by (simp_all add: lower_char_def ascii_uppercase_def ascii_lowercase_def)

lemma lower_eq_Nil: "lower s = [] \<longleftrightarrow> s = []"
  by (cases s) auto

lemma lower_eq_Cons:
  assumes "p \<noteq> CHR ''k''" "p \<noteq> CHR ''i''" "p \<noteq> CHR 0xE2" "p \<noteq> CHR 0xC4"
  shows "lower s = p # t \<longleftrightarrow> (\<exists>c cs. s = c # cs \<and> lower_char c = p \<and> lower cs = t)"
  using assms by (cases s) (auto simp: lower_char_lead_bytes)

lemma lower_eq_i_Cons:
  assumes "t = [] \<or> hd t \<noteq> CHR 0xCC"
  shows "lower s = CHR ''i'' # t \<longleftrightarrow> (\<exists>c cs. s = c # cs \<and> lower_char c = CHR ''i'' \<and> lower cs = t)"
  using assms by (cases s) (auto simp: lower_char_lead_bytes)

lemma lower_eq_hindi: "lower s = ''hindi'' \<longleftrightarrow> spelled_in_any_case ''hindi'' s"
  by (auto simp: lower_eq_Cons lower_eq_i_Cons lower_eq_Nil lower_char_letters
      spelled_in_any_case_def list_all2_Cons1)


lemma lower_char_letters_english:
  "lower_char c = CHR ''e'' \<longleftrightarrow> c = CHR ''e'' \<or> c = CHR ''E''"
  "lower_char c = CHR ''g'' \<longleftrightarrow> c = CHR ''g'' \<or> c = CHR ''G''"
  "lower_char c = CHR ''l'' \<longleftrightarrow> c = CHR ''l'' \<or> c = CHR ''L''"
  "lower_char c = CHR ''s'' \<longleftrightarrow> c = CHR ''s'' \<or> c = CHR ''S''"
  by (auto simp: lower_char_def ascii_uppercase_def ascii_lowercase_def split: if_splits)

lemma lower_eq_english: "lower s = ''english'' \<longleftrightarrow> spelled_in_any_case ''english'' s"
  by (auto simp: lower_eq_Cons lower_eq_i_Cons lower_eq_Nil lower_char_letters
      lower_char_letters_english spelled_in_any_case_def list_all2_Cons1)

section \<open>Content generation\<close>

lemma dict_contains_content_templates:
  "dict_contains content_templates k \<longleftrightarrow> k = ''english'' \<or> k = ''hindi''"
  by (simp add: dict_contains_def content_templates_def)

lemma generate_content_body_eq:
  "\<exists>templates dflt.
     map_of content_templates
       (if dict_contains content_templates (lower (language request))
        then lower (language request) else ''english'') = Some templates
   \<and> map_of templates ''default'' = Some dflt
   \<and> generate_content_body request =
       Inr \<lparr>content = (case map_of templates (topic request) of
                         Some t \<Rightarrow> t
                       | None \<Rightarrow> replace ''{topic}'' (topic request) dflt)\<rparr>"
proof (cases "lower (language request) = ''hindi''")
  case True
  then show ?thesis
    by (auto simp: generate_content_body_def dict_contains_def content_templates_def getitem_def
        dict_get_def Let_def split: option.splits)
next
  case False
  then show ?thesis
    by (auto simp: generate_content_body_def dict_contains_def content_templates_def getitem_def
        dict_get_def Let_def split: option.splits)
qed

lemma language_key:
  "(if dict_contains content_templates (lower l) then lower l else ''english'') =
   (if spelled_in_any_case ''hindi'' l then ''hindi'' else ''english'')"
  by (auto simp: dict_contains_content_templates lower_eq_hindi)

text \<open>
  C6. The language is compared without regard to case: the templates are the Hindi ones
  when the language is \<open>hindi\<close> in any spelling of upper and lower case, and the English
  ones for every other language, \<open>english\<close> and unknown ones alike (the lower-cased
  language is \<open>hindi\<close>, or \<open>english\<close>, exactly for these spellings). The request never
  fails. A topic that is a key of the language's templates gets the stored text as it
  is; any other topic gets the language's \<open>default\<close> template (both languages have one)
  cut at every occurrence of \<open>{topic}\<close> and joined again with the topic in place of each
  occurrence: the pieces joined with \<open>{topic}\<close> are the template, and no piece contains
  \<open>{topic}\<close>.
\<close>

theorem generate_content_result:
  "\<exists>templates dflt.
     map_of content_templates
       (if spelled_in_any_case ''hindi'' (language request) then ''hindi'' else ''english'') =
       Some templates
   \<and> map_of templates ''default'' = Some dflt
   \<and> fst (generate_content request p) =
       Inr \<lparr>content = (case map_of templates (topic request) of
                         Some t \<Rightarrow> t
                       | None \<Rightarrow> join (topic request) (pieces_between ''{topic}'' dflt))\<rparr>
   \<and> join ''{topic}'' (pieces_between ''{topic}'' dflt) = dflt
   \<and> (\<forall>piece \<in> set (pieces_between ''{topic}'' dflt). \<not> sublist ''{topic}'' piece)
   \<and> (lower (language request) = ''hindi'' \<longleftrightarrow> spelled_in_any_case ''hindi'' (language request))
   \<and> (lower (language request) = ''english'' \<longleftrightarrow> spelled_in_any_case ''english'' (language request))"
proof -
  obtain templates dflt where
    t: "map_of content_templates
         (if dict_contains content_templates (lower (language request))
          then lower (language request) else ''english'') = Some templates"
    and d: "map_of templates ''default'' = Some dflt"
    and b: "generate_content_body request =
       Inr \<lparr>content = (case map_of templates (topic request) of
                         Some t \<Rightarrow> t
                       | None \<Rightarrow> replace ''{topic}'' (topic request) dflt)\<rparr>"
    using generate_content_body_eq [of request] by blast
  have ne: "''{topic}'' \<noteq> []" by simp
  have "fst (generate_content request p) =
       Inr \<lparr>content = (case map_of templates (topic request) of
                         Some t \<Rightarrow> t
                       | None \<Rightarrow> join (topic request) (pieces_between ''{topic}'' dflt))\<rparr>"
    by (simp add: generate_content_def b replace_join_pieces [OF ne] split: option.split)
  moreover have "join ''{topic}'' (pieces_between ''{topic}'' dflt) = dflt"
    by (rule join_pieces_between [OF ne])
  moreover have "\<forall>piece \<in> set (pieces_between ''{topic}'' dflt). \<not> sublist ''{topic}'' piece"
    using pieces_between_free [OF ne] by (simp add: str_in_sublist)
  moreover have "map_of content_templates
       (if spelled_in_any_case ''hindi'' (language request) then ''hindi'' else ''english'') =
       Some templates"
    using t unfolding language_key .
  ultimately show ?thesis
    using d lower_eq_hindi lower_eq_english by blast
qed

lemma generate_content_artificial_intelligence: "fst (generate_content \<lparr>username = ''u'', topic = ''Artificial Intelligence'', language = ''english''\<rparr> p)
   = Inr \<lparr>content = english_artificial_intelligence\<rparr>"
  by (simp add: generate_content_def generate_content_body_def dict_contains_def content_templates_def getitem_def
        dict_get_def Let_def lower_char_def ascii_uppercase_def ascii_lowercase_def)



lemma spelled_examples:
  "spelled_in_any_case ''hindi'' ''HINDI''" "spelled_in_any_case ''hindi'' ''Hindi''"
  "\<not> spelled_in_any_case ''hindi'' ''french''" "\<not> spelled_in_any_case ''hindi'' ''ENGLISH''"
  "\<not> spelled_in_any_case ''hindi'' ''english''" "\<not> spelled_in_any_case ''hindi'' ''hindi ''"
  by (simp_all add: spelled_in_any_case_def)

lemma content_templates_lookup:
  "map_of content_templates ''english'' =
     Some [(''Artificial Intelligence'', english_artificial_intelligence),
           (''Climate Change'', english_climate_change), (''default'', english_default)]"
  "map_of content_templates ''hindi'' = Some [(''default'', hindi_default)]"
  by (simp_all add: content_templates_def)

text \<open>
  The language \<open>HINDI\<close> with the topic \<open>Yoga\<close>: the Hindi default template with the topic
  in every place of \<open>{topic}\<close>. The unsupported language \<open>french\<close> with the topic
  \<open>Unknown Topic X\<close>: the same with the English default template. The language \<open>ENGLISH\<close>
  with the topic \<open>Climate Change\<close>: the stored text.
\<close>

theorem generate_content_result_witness:
  "fst (generate_content \<lparr>username = ''u'', topic = ''Yoga'', language = ''HINDI''\<rparr>
          \<lparr>heap = [], random_state = 0\<rparr>) =
     Inr \<lparr>content = join ''Yoga'' (pieces_between ''{topic}'' hindi_default)\<rparr>
   \<and> join ''{topic}'' (pieces_between ''{topic}'' hindi_default) = hindi_default
   \<and> \<not> sublist ''{topic}'' (hd (pieces_between ''{topic}'' hindi_default))
   \<and> lower ''HINDI'' = ''hindi''
   \<and> fst (generate_content \<lparr>username = ''u'', topic = ''Unknown Topic X'', language = ''french''\<rparr>
          \<lparr>heap = [], random_state = 0\<rparr>) =
     Inr \<lparr>content = join ''Unknown Topic X'' (pieces_between ''{topic}'' english_default)\<rparr>
   \<and> fst (generate_content \<lparr>username = ''u'', topic = ''Climate Change'', language = ''ENGLISH''\<rparr>
          \<lparr>heap = [], random_state = 0\<rparr>) =
     Inr \<lparr>content = english_climate_change\<rparr>"
proof -
  let ?p = "\<lparr>heap = [], random_state = 0\<rparr>"
  let ?h = "\<lparr>username = ''u'', topic = ''Yoga'', language = ''HINDI''\<rparr>"
  let ?f = "\<lparr>username = ''u'', topic = ''Unknown Topic X'', language = ''french''\<rparr>"
  let ?e = "\<lparr>username = ''u'', topic = ''Climate Change'', language = ''ENGLISH''\<rparr>"
  obtain templates dflt where
    t: "map_of content_templates ''hindi'' = Some templates"
    and d: "map_of templates ''default'' = Some dflt"
    and c: "fst (generate_content ?h ?p) =
       Inr \<lparr>content = (case map_of templates (topic ?h) of
                         Some t \<Rightarrow> t
                       | None \<Rightarrow> join (topic ?h) (pieces_between ''{topic}'' dflt))\<rparr>"
    and j: "join ''{topic}'' (pieces_between ''{topic}'' dflt) = dflt"
    and f: "\<forall>piece \<in> set (pieces_between ''{topic}'' dflt). \<not> sublist ''{topic}'' piece"
    and l: "lower (language ?h) = ''hindi''"
    using generate_content_result [of ?h ?p] by (auto simp: spelled_examples)
  from t have templates: "templates = [(''default'', hindi_default)]"
    by (simp add: content_templates_lookup)
  with d have dflt: "dflt = hindi_default" by simp
  have "hd (pieces_between ''{topic}'' hindi_default) \<in> set (pieces_between ''{topic}'' hindi_default)"
    by (simp add: pieces_between_not_Nil)
  with f dflt have n: "\<not> sublist ''{topic}'' (hd (pieces_between ''{topic}'' hindi_default))"
    by blast
  have fr: "fst (generate_content ?f ?p) =
     Inr \<lparr>content = join ''Unknown Topic X'' (pieces_between ''{topic}'' english_default)\<rparr>"
    using generate_content_result [of ?f ?p]
    by (auto simp: spelled_examples content_templates_lookup)
  have en: "fst (generate_content ?e ?p) = Inr \<lparr>content = english_climate_change\<rparr>"
    using generate_content_result [of ?e ?p]
    by (auto simp: spelled_examples content_templates_lookup)
  from c j n l fr en show ?thesis
    unfolding templates dflt by simp
qed

section \<open>Fitness planning\<close>

subsection \<open>Evaluating the float operations on numerals\<close>

lemma floor_numeral_quotient:
  "\<lfloor>numeral a / numeral b :: rat\<rfloor> = numeral a div numeral b"
  using floor_divide_of_int_eq [of "numeral a" "numeral b", where ?'a = rat] by simp

lemma floor_neg_numeral_quotient:
  "\<lfloor>- (numeral a / numeral b) :: rat\<rfloor> = - numeral a div numeral b"
  using floor_divide_of_int_eq [of "- numeral a" "numeral b", where ?'a = rat] by simp

lemma bitlen_numeral: "bitlen (numeral n) = bitlen (numeral n div 2) + 1"
  by (subst compute_bitlen) simp

lemma bitlen_one: "bitlen 1 = 1"
  by (simp add: compute_bitlen)

lemmas float_eval =
  int_true_div_def int_to_float_def int_truediv_float_def round_double_def ilog2_def pow2_def
  round_half_even_def bitlen_numeral bitlen_one Let_def floor_numeral_quotient
  floor_neg_numeral_quotient ceiling_def

lemmas lower_eval = lower_char_def ascii_uppercase_def ascii_lowercase_def

subsection \<open>Facts about rounding\<close>

lemma round_double_not_NaN: "round_double x \<noteq> NaN"
  by (simp add: round_double_def Let_def)

lemma round_half_even_near: "\<bar>of_int (round_half_even y) - y\<bar> \<le> 1 / 2"
proof -
  have "of_int \<lfloor>y\<rfloor> \<le> y" "y < of_int \<lfloor>y\<rfloor> + 1"
    by linarith+
  then show ?thesis
    by (auto simp: round_half_even_def Let_def)
qed

lemma float_round_one_decimal:
  "\<exists>k. float_round (Finite x) 1 = round_double (of_int k / 10) \<and> \<bar>x - of_int k / 10\<bar> \<le> 1 / 20"
proof -
  have "\<bar>of_int (round_half_even (x * 10)) - x * 10\<bar> \<le> 1 / 2"
    by (rule round_half_even_near)
  then have "\<bar>x - of_int (round_half_even (x * 10)) / 10\<bar> \<le> 1 / 20"
    by linarith
  then show ?thesis
    by (intro exI [of _ "round_half_even (x * 10)"]) simp
qed

subsection \<open>The body of the fitness handler\<close>

lemma bind_exc_Inr: "bind_exc m f = Inr r \<longleftrightarrow> (\<exists>x. m = Inr x \<and> f x = Inr r)"
  by (cases m) auto

lemma bind_exc_Inl: "bind_exc m f = Inl e \<longleftrightarrow> m = Inl e \<or> (\<exists>x. m = Inr x \<and> f x = Inl e)"
  by (cases m) auto

lemma try_except_Inr: "try_except m = Inr r \<longleftrightarrow> m = Inr r"
  by (cases m) auto

lemma int_true_div_Finite: "int_true_div a b = Inr hm \<Longrightarrow> \<exists>v. hm = Finite v"
  by (cases "round_double (of_int a / of_int b)") (auto simp: int_true_div_def split: if_splits dest: sym)

lemma int_to_float_Finite: "int_to_float a = Inr x \<Longrightarrow> \<exists>v. x = Finite v"
  by (cases "round_double (of_int a)") (auto simp: int_to_float_def)

lemma quotient_not_NaN:
  assumes "int_true_div h 100 = Inr hm" and "int_truediv_float w (float_mul hm hm) = Inr q"
  shows "q \<noteq> NaN"
proof -
  obtain v where hm: "hm = Finite v"
    using assms(1) int_true_div_Finite by blast
  obtain x where x: "int_to_float w = Inr (Finite x)"
    and q: "float_truediv (Finite x) (float_mul hm hm) = Inr q"
    using assms(2) int_to_float_Finite
    by (auto simp: int_truediv_float_def bind_exc_Inr)
  show ?thesis
  proof (cases "round_double (v * v)")
    case (Finite d)
    with q hm show ?thesis
      by (auto simp: round_double_not_NaN split: if_splits)
  next
    case (Inf s)
    with q hm show ?thesis by auto
  next
    case NaN
    then show ?thesis using round_double_not_NaN by blast
  qed
qed

lemma float_round_not_NaN: "q \<noteq> NaN \<Longrightarrow> float_round q n \<noteq> NaN"
  by (cases q) (simp_all add: round_double_not_NaN)

lemma get_fitness_plan_body_Inr:
  assumes "get_fitness_plan_body request = Inr response"
  shows "\<exists>hm q. int_true_div (height request) 100 = Inr hm
     \<and> int_truediv_float (weight request) (float_mul hm hm) = Inr q
     \<and> q \<noteq> NaN
     \<and> bmi response = float_round q 1
     \<and> category response =
         (if float_lt (bmi response) (Finite (37 / 2)) then ''Underweight''
          else if float_lt (bmi response) (Finite 25) then ''Normal weight''
          else if float_lt (bmi response) (Finite 30) then ''Overweight''
          else ''Obese'')
     \<and> plan response =
         (if str_in ''lose'' (lower (goal request)) then plan_lose
          else if str_in ''gain'' (lower (goal request)) \<or> str_in ''muscle'' (lower (goal request))
            then plan_gain_muscle
          else if str_in ''maintain'' (lower (goal request)) then plan_maintain
          else if str_in ''endurance'' (lower (goal request)) then plan_endurance
          else plan_general)"
proof -
  from assms obtain hm q where
    hm: "int_true_div (height request) 100 = Inr hm"
    and q: "int_truediv_float (weight request) (float_mul hm hm) = Inr q"
    and r: "response =
      \<lparr>bmi = float_round q 1,
       category =
         (if float_lt (float_round q 1) (Finite (37 / 2)) then ''Underweight''
          else if float_le (Finite (37 / 2)) (float_round q 1) \<and> float_lt (float_round q 1) (Finite 25)
            then ''Normal weight''
          else if float_le (Finite 25) (float_round q 1) \<and> float_lt (float_round q 1) (Finite 30)
            then ''Overweight''
          else ''Obese''),
       plan =
         (if str_in ''lose'' (lower (goal request)) then plan_lose
          else if str_in ''gain'' (lower (goal request)) \<or> str_in ''muscle'' (lower (goal request))
            then plan_gain_muscle
          else if str_in ''maintain'' (lower (goal request)) then plan_maintain
          else if str_in ''endurance'' (lower (goal request)) then plan_endurance
          else plan_general)\<rparr>"
    by (auto simp: get_fitness_plan_body_def bind_exc_Inr Let_def)
  have n: "q \<noteq> NaN"
    using hm q by (rule quotient_not_NaN)
  then have "float_round q 1 \<noteq> NaN"
    by (rule float_round_not_NaN)
  then have c: "category response =
         (if float_lt (bmi response) (Finite (37 / 2)) then ''Underweight''
          else if float_lt (bmi response) (Finite 25) then ''Normal weight''
          else if float_lt (bmi response) (Finite 30) then ''Overweight''
          else ''Obese'')"
    unfolding r by (cases "float_round q 1") auto
  show ?thesis
    using hm q n c unfolding r by auto
qed

lemma fitness_180_81:
  "get_fitness_plan_body \<lparr>height = 180, weight = 81, goal = g\<rparr> =
     Inr \<lparr>bmi = Finite 25, category = ''Overweight'',
          plan = (if str_in ''lose'' (lower g) then plan_lose
          else if str_in ''gain'' (lower g) \<or> str_in ''muscle'' (lower g)
            then plan_gain_muscle
          else if str_in ''maintain'' (lower g) then plan_maintain
          else if str_in ''endurance'' (lower g) then plan_endurance
          else plan_general)\<rparr>"
  by (simp add: get_fitness_plan_body_def float_eval)

subsection \<open>Body-mass index and category\<close>

lemma fitness_160_50:
  "get_fitness_plan_body \<lparr>height = 160, weight = 50, goal = ''''\<rparr> =
     Inr \<lparr>bmi = Finite (39 / 2), category = ''Normal weight'', plan = plan_general\<rparr>"
  by (simp add: get_fitness_plan_body_def float_eval)

lemma fitness_150_30:
  "get_fitness_plan_body \<lparr>height = 150, weight = 30, goal = ''''\<rparr> =
     Inr \<lparr>bmi = round_double (133 / 10), category = ''Underweight'', plan = plan_general\<rparr>"
  by (simp add: get_fitness_plan_body_def float_eval)

lemma fitness_170_100:
  "get_fitness_plan_body \<lparr>height = 170, weight = 100, goal = ''''\<rparr> =
     Inr \<lparr>bmi = round_double (346 / 10), category = ''Obese'', plan = plan_general\<rparr>"
  by (simp add: get_fitness_plan_body_def float_eval)

lemma fitness_160_48:
  "get_fitness_plan_body \<lparr>height = 160, weight = 48, goal = ''''\<rparr> =
     Inr \<lparr>bmi = round_double (187 / 10), category = ''Normal weight'', plan = plan_general\<rparr>"
  by (simp add: get_fitness_plan_body_def float_eval)

lemma round_double_187_188: "round_double (187 / 10) \<noteq> round_double (188 / 10)"
  by (simp add: float_eval)

lemma exact_bmi_160_48:
  "exact_bmi 160 48 = 75 / 4"
  "one_decimal_half_even (75 / 4) = 188 / 10"
  "one_decimal_half_up (75 / 4) = 188 / 10"
  by (simp_all add: exact_bmi_def one_decimal_half_even_def one_decimal_half_up_def
      round_half_even_def Let_def floor_numeral_quotient power2_eq_square)

text \<open>
  C1, as stated, at height 160 and weight 48: the number \<open>48 / 1.6\<^sup>2\<close> is \<open>18.75\<close>, which
  rounds to \<open>18.8\<close> half-to-even as well as half-up. The handler computes in binary64:
  \<^verbatim>\<open>1.6 * 1.6\<close> is slightly more than \<open>2.56\<close>, the quotient slightly less than \<open>18.75\<close>,
  and the response carries the double \<open>18.7\<close>.
\<close>

theorem bmi_exact_rounding_counterexample:
  "fst (get_fitness_plan \<lparr>height = 160, weight = 48, goal = ''''\<rparr> \<lparr>heap = [], random_state = 0\<rparr>) =
     Inr \<lparr>bmi = round_double (187 / 10), category = ''Normal weight'', plan = plan_general\<rparr>
   \<and> round_double (187 / 10) \<noteq> round_double (one_decimal_half_even (exact_bmi 160 48))
   \<and> round_double (187 / 10) \<noteq> round_double (one_decimal_half_up (exact_bmi 160 48))"
  using round_double_187_188
  by (simp add: get_fitness_plan_def fitness_160_48 exact_bmi_160_48)

text \<open>
  C1, amended. For every request that the handler answers, \<open>bmi\<close> is \<^verbatim>\<open>round(q, 1)\<close> of
  the binary64 quotient \<open>q\<close> of the weight by the square of \<^verbatim>\<open>height / 100\<close>; when \<open>q\<close> is
  finite, it is the double nearest to a one-decimal number within \<open>0.05\<close> of \<open>q\<close>. The
  category is read off the returned \<open>bmi\<close> by the half-open intervals: below \<open>18.5\<close>
  Underweight, from \<open>18.5\<close> below \<open>25\<close> Normal weight, from \<open>25\<close> below \<open>30\<close> Overweight,
  from \<open>30\<close> Obese (an infinite \<open>bmi\<close>, possible only for astronomically large inputs,
  falls in the outermost interval of its sign). \<open>bmi\<close> is never NaN.
\<close>

theorem get_fitness_plan_bmi_category:
  assumes "fst (get_fitness_plan request p) = Inr response"
  shows "(\<exists>hm q. int_true_div (height request) 100 = Inr hm
            \<and> int_truediv_float (weight request) (float_mul hm hm) = Inr q
            \<and> bmi response = float_round q 1
            \<and> (\<forall>x. q = Finite x \<longrightarrow>
                  (\<exists>k. bmi response = round_double (of_int k / 10) \<and> \<bar>x - of_int k / 10\<bar> \<le> 1 / 20)))
       \<and> (case bmi response of
             Finite b \<Rightarrow>
               category response =
                 (if b < 37 / 2 then ''Underweight''
                  else if b < 25 then ''Normal weight''
                  else if b < 30 then ''Overweight''
                  else ''Obese'')
           | Inf positive \<Rightarrow> category response = (if positive then ''Obese'' else ''Underweight'')
           | NaN \<Rightarrow> False)"
proof -
  from assms have "get_fitness_plan_body request = Inr response"
    by (simp add: get_fitness_plan_def try_except_Inr)
  then obtain hm q where
    hm: "int_true_div (height request) 100 = Inr hm"
    and q: "int_truediv_float (weight request) (float_mul hm hm) = Inr q"
    and n: "q \<noteq> NaN"
    and b: "bmi response = float_round q 1"
    and c: "category response =
         (if float_lt (bmi response) (Finite (37 / 2)) then ''Underweight''
          else if float_lt (bmi response) (Finite 25) then ''Normal weight''
          else if float_lt (bmi response) (Finite 30) then ''Overweight''
          else ''Obese'')"
    using get_fitness_plan_body_Inr by blast
  have r: "\<forall>x. q = Finite x \<longrightarrow>
      (\<exists>k. bmi response = round_double (of_int k / 10) \<and> \<bar>x - of_int k / 10\<bar> \<le> 1 / 20)"
    using float_round_one_decimal b by simp
  have "bmi response \<noteq> NaN"
    using n b float_round_not_NaN by simp
  then have "case bmi response of
             Finite b \<Rightarrow>
               category response =
                 (if b < 37 / 2 then ''Underweight''
                  else if b < 25 then ''Normal weight''
                  else if b < 30 then ''Overweight''
                  else ''Obese'')
           | Inf positive \<Rightarrow> category response = (if positive then ''Obese'' else ''Underweight'')
           | NaN \<Rightarrow> False"
    using c by (cases "bmi response") auto
  with hm q b r show ?thesis by blast
qed

text \<open>
  The four examples: \<open>(180, 81)\<close> gives \<open>25.0\<close> and Overweight, \<open>(160, 50)\<close> gives \<open>19.5\<close> and
  Normal weight, \<open>(150, 30)\<close> gives the double \<open>13.3\<close> and Underweight, \<open>(170, 100)\<close> gives
  the double \<open>34.6\<close> and Obese.
\<close>

theorem get_fitness_plan_bmi_category_witness:
  "fst (get_fitness_plan \<lparr>height = 180, weight = 81, goal = ''''\<rparr> \<lparr>heap = [], random_state = 0\<rparr>) =
     Inr \<lparr>bmi = Finite 25, category = ''Overweight'', plan = plan_general\<rparr>
   \<and> fst (get_fitness_plan \<lparr>height = 160, weight = 50, goal = ''''\<rparr> \<lparr>heap = [], random_state = 0\<rparr>) =
     Inr \<lparr>bmi = Finite (39 / 2), category = ''Normal weight'', plan = plan_general\<rparr>
   \<and> fst (get_fitness_plan \<lparr>height = 150, weight = 30, goal = ''''\<rparr> \<lparr>heap = [], random_state = 0\<rparr>) =
     Inr \<lparr>bmi = round_double (133 / 10), category = ''Underweight'', plan = plan_general\<rparr>
   \<and> fst (get_fitness_plan \<lparr>height = 170, weight = 100, goal = ''''\<rparr> \<lparr>heap = [], random_state = 0\<rparr>) =
     Inr \<lparr>bmi = round_double (346 / 10), category = ''Obese'', plan = plan_general\<rparr>
   \<and> (case Finite 25 of
         Finite b \<Rightarrow>
           ''Overweight'' =
             (if b < 37 / 2 then ''Underweight''
              else if b < 25 then ''Normal weight''
              else if b < 30 then ''Overweight''
              else ''Obese'')
       | Inf positive \<Rightarrow> ''Overweight'' = (if positive then ''Obese'' else ''Underweight'')
       | NaN \<Rightarrow> False)"
proof -
  have h: "fst (get_fitness_plan \<lparr>height = 180, weight = 81, goal = ''''\<rparr> \<lparr>heap = [], random_state = 0\<rparr>) =
     Inr \<lparr>bmi = Finite 25, category = ''Overweight'', plan = plan_general\<rparr>"
    by (simp add: get_fitness_plan_def fitness_180_81)
  show ?thesis
    using h get_fitness_plan_bmi_category [OF h]
    by (simp add: get_fitness_plan_def fitness_160_50 fitness_150_30 fitness_170_100)
qed

subsection \<open>Goal keywords and plans\<close>

lemma length_plans:
  "length plan_lose = 6" "length plan_gain_muscle = 6" "length plan_maintain = 6"
  "length plan_endurance = 6" "length plan_general = 6"
  by (simp_all add: plan_lose_def plan_gain_muscle_def plan_maintain_def plan_endurance_def
      plan_general_def)

lemma plan_general_distinct:
  "plan_lose \<noteq> plan_general" "plan_gain_muscle \<noteq> plan_general"
  "plan_maintain \<noteq> plan_general" "plan_endurance \<noteq> plan_general"
  by (simp_all add: plan_lose_def plan_gain_muscle_def plan_maintain_def plan_endurance_def
      plan_general_def)

lemma get_fitness_plan_Inr_plan:
  assumes "fst (get_fitness_plan request p) = Inr response"
  shows "plan response =
     (if sublist ''lose'' (lower (goal request)) then plan_lose
      else if sublist ''gain'' (lower (goal request)) \<or> sublist ''muscle'' (lower (goal request))
        then plan_gain_muscle
      else if sublist ''maintain'' (lower (goal request)) then plan_maintain
      else if sublist ''endurance'' (lower (goal request)) then plan_endurance
      else plan_general)"
proof -
  from assms have "get_fitness_plan_body request = Inr response"
    by (simp add: get_fitness_plan_def try_except_Inr)
  then show ?thesis
    using get_fitness_plan_body_Inr [of request response] by (auto simp: str_in_sublist)
qed

text \<open>
  C2. For every request that the handler answers, the plan is chosen by the first
  keyword that occurs in the lower-cased goal, in this order: \<open>lose\<close> gives the
  weight-loss plan; otherwise \<open>gain\<close> or \<open>muscle\<close> the muscle-gain plan; otherwise
  \<open>maintain\<close> the maintenance plan; otherwise \<open>endurance\<close> the endurance plan; otherwise
  the general-fitness plan. \<open>sublist\<close> is the library's notion of a contiguous
  substring.
\<close>

theorem get_fitness_plan_goal_selection:
  assumes "fst (get_fitness_plan request p) = Inr response"
  shows "plan response =
     (if sublist ''lose'' (lower (goal request)) then plan_lose
      else if sublist ''gain'' (lower (goal request)) \<or> sublist ''muscle'' (lower (goal request))
        then plan_gain_muscle
      else if sublist ''maintain'' (lower (goal request)) then plan_maintain
      else if sublist ''endurance'' (lower (goal request)) then plan_endurance
      else plan_general)"
  using assms by (rule get_fitness_plan_Inr_plan)

lemma goal_examples:
  "lower ''I want to LOSE weight'' = ''i want to lose weight''"
  "lower ''build Muscle'' = ''build muscle''"
  "lower ''xyz'' = ''xyz''"
  by (simp_all add: lower_eval)

lemma fitness_goal_lose:
  "fst (get_fitness_plan \<lparr>height = 180, weight = 81, goal = ''I want to LOSE weight''\<rparr> p) =
     Inr \<lparr>bmi = Finite 25, category = ''Overweight'', plan = plan_lose\<rparr>"
  by (simp add: get_fitness_plan_def fitness_180_81 goal_examples del: lower.simps)

lemma fitness_goal_muscle:
  "fst (get_fitness_plan \<lparr>height = 180, weight = 81, goal = ''build Muscle''\<rparr> p) =
     Inr \<lparr>bmi = Finite 25, category = ''Overweight'', plan = plan_gain_muscle\<rparr>"
  by (simp add: get_fitness_plan_def fitness_180_81 goal_examples del: lower.simps)

lemma fitness_goal_xyz:
  "fst (get_fitness_plan \<lparr>height = 180, weight = 81, goal = ''xyz''\<rparr> p) =
     Inr \<lparr>bmi = Finite 25, category = ''Overweight'', plan = plan_general\<rparr>"
  by (simp add: get_fitness_plan_def fitness_180_81 goal_examples del: lower.simps)

lemma fitness_goal_empty:
  "fst (get_fitness_plan \<lparr>height = 180, weight = 81, goal = ''''\<rparr> p) =
     Inr \<lparr>bmi = Finite 25, category = ''Overweight'', plan = plan_general\<rparr>"
  by (simp add: get_fitness_plan_def fitness_180_81)

text \<open>
  The goals \<open>I want to LOSE weight\<close> (weight-loss plan, through the upper-case \<open>LOSE\<close>),
  \<open>build Muscle\<close> (muscle-gain plan), \<open>xyz\<close> and the empty goal (general-fitness plan).
\<close>

theorem get_fitness_plan_goal_selection_witness:
  "fst (get_fitness_plan \<lparr>height = 180, weight = 81, goal = ''I want to LOSE weight''\<rparr>
          \<lparr>heap = [], random_state = 0\<rparr>) =
     Inr \<lparr>bmi = Finite 25, category = ''Overweight'', plan = plan_lose\<rparr>
   \<and> sublist ''lose'' (lower ''I want to LOSE weight'')
   \<and> fst (get_fitness_plan \<lparr>height = 180, weight = 81, goal = ''build Muscle''\<rparr>
          \<lparr>heap = [], random_state = 0\<rparr>) =
     Inr \<lparr>bmi = Finite 25, category = ''Overweight'', plan = plan_gain_muscle\<rparr>
   \<and> fst (get_fitness_plan \<lparr>height = 180, weight = 81, goal = ''xyz''\<rparr>
          \<lparr>heap = [], random_state = 0\<rparr>) =
     Inr \<lparr>bmi = Finite 25, category = ''Overweight'', plan = plan_general\<rparr>
   \<and> fst (get_fitness_plan \<lparr>height = 180, weight = 81, goal = ''''\<rparr>
          \<lparr>heap = [], random_state = 0\<rparr>) =
     Inr \<lparr>bmi = Finite 25, category = ''Overweight'', plan = plan_general\<rparr>"
proof -
  let ?p = "\<lparr>heap = [], random_state = 0\<rparr>"
  have "plan \<lparr>bmi = Finite 25, category = ''Overweight'', plan = plan_lose\<rparr> =
     (if sublist ''lose'' (lower (goal \<lparr>height = 180, weight = 81, goal = ''I want to LOSE weight''\<rparr>))
      then plan_lose
      else if sublist ''gain'' (lower (goal \<lparr>height = 180, weight = 81, goal = ''I want to LOSE weight''\<rparr>))
            \<or> sublist ''muscle'' (lower (goal \<lparr>height = 180, weight = 81, goal = ''I want to LOSE weight''\<rparr>))
        then plan_gain_muscle
      else if sublist ''maintain'' (lower (goal \<lparr>height = 180, weight = 81, goal = ''I want to LOSE weight''\<rparr>))
        then plan_maintain
      else if sublist ''endurance'' (lower (goal \<lparr>height = 180, weight = 81, goal = ''I want to LOSE weight''\<rparr>))
        then plan_endurance
      else plan_general)"
    by (rule get_fitness_plan_goal_selection [OF fitness_goal_lose [of ?p]])
  moreover have "sublist ''lose'' (lower ''I want to LOSE weight'')"
    unfolding goal_examples str_in_sublist [symmetric] by simp
  ultimately show ?thesis
    by (simp add: fitness_goal_lose fitness_goal_muscle fitness_goal_xyz fitness_goal_empty)
qed

text \<open>
  C7. For every request that the handler answers, the plan has exactly six entries, and
  it is the general-fitness plan exactly when none of the five keywords occurs in the
  lower-cased goal: the general-fitness plan differs from each of the other four.
\<close>

theorem get_fitness_plan_six_entries:
  assumes "fst (get_fitness_plan request p) = Inr response"
  shows "length (plan response) = 6
       \<and> (plan response = plan_general \<longleftrightarrow>
            \<not> (sublist ''lose'' (lower (goal request))
               \<or> sublist ''gain'' (lower (goal request))
               \<or> sublist ''muscle'' (lower (goal request))
               \<or> sublist ''maintain'' (lower (goal request))
               \<or> sublist ''endurance'' (lower (goal request))))"
  using get_fitness_plan_Inr_plan [OF assms]
  by (auto simp: length_plans plan_general_distinct)

text \<open>The goal \<open>xyz\<close>: no keyword occurs, and the general-fitness plan has six entries.\<close>

theorem get_fitness_plan_six_entries_witness:
  "fst (get_fitness_plan \<lparr>height = 180, weight = 81, goal = ''xyz''\<rparr> \<lparr>heap = [], random_state = 0\<rparr>) =
     Inr \<lparr>bmi = Finite 25, category = ''Overweight'', plan = plan_general\<rparr>
   \<and> length plan_general = 6
   \<and> \<not> (sublist ''lose'' (lower ''xyz'') \<or> sublist ''gain'' (lower ''xyz'')
        \<or> sublist ''muscle'' (lower ''xyz'') \<or> sublist ''maintain'' (lower ''xyz'')
        \<or> sublist ''endurance'' (lower ''xyz''))"
  using get_fitness_plan_six_entries [OF fitness_goal_xyz [of "\<lparr>heap = [], random_state = 0\<rparr>"]]
  by (simp add: fitness_goal_xyz)

subsection \<open>Faults\<close>

lemma int_true_div_zero: "int_true_div 0 100 = Inr (Finite 0)"
  by (simp add: int_true_div_def round_double_def)

lemma round_double_zero: "round_double 0 = Finite 0"
  by (simp add: round_double_def)

lemma get_fitness_plan_body_height_zero:
  assumes "height request = 0"
  shows "get_fitness_plan_body request =
     Inl (case int_to_float (weight request) of
            Inl e \<Rightarrow> e
          | Inr w \<Rightarrow> ZeroDivisionError ''float division by zero'')"
proof (cases "int_to_float (weight request)")
  case (Inl e)
  then show ?thesis
    by (simp add: get_fitness_plan_body_def assms int_true_div_zero round_double_zero
        int_truediv_float_def)
next
  case (Inr w)
  then show ?thesis
    by (simp add: get_fitness_plan_body_def assms int_true_div_zero round_double_zero
        int_truediv_float_def)
qed

lemma try_except_cases:
  "(\<exists>r. m = Inr r \<and> try_except m = Inr r)
 \<or> (\<exists>e. m = Inl e \<and> try_except m = Inl (HTTPException 500 (str_exc e)))"
  by (cases m) auto

text \<open>
  C9. The handler checks neither height nor weight. With height \<open>0\<close> the division
  raises: the response is the HTTP error 500 whose detail is the message of
  \<^verbatim>\<open>ZeroDivisionError\<close>, \<open>float division by zero\<close> (for a weight too large to be converted
  to a float, the conversion raises before the division, and the detail is the
  message of that \<^verbatim>\<open>OverflowError\<close>). For every request the outcome is either a response
  with all three fields or the HTTP error 500 carrying the message of the exception
  the body raised; there is no third outcome.
\<close>

theorem get_fitness_plan_faults:
  "(height request = 0 \<longrightarrow>
      fst (get_fitness_plan request p) =
        Inl (HTTPException 500
              (case int_to_float (weight request) of
                 Inl e \<Rightarrow> str_exc e
               | Inr w \<Rightarrow> ''float division by zero'')))
 \<and> ((\<exists>b c l. fst (get_fitness_plan request p) = Inr \<lparr>bmi = b, category = c, plan = l\<rparr>)
    \<or> (\<exists>e. get_fitness_plan_body request = Inl e
           \<and> fst (get_fitness_plan request p) = Inl (HTTPException 500 (str_exc e))))"
proof
  show "height request = 0 \<longrightarrow>
      fst (get_fitness_plan request p) =
        Inl (HTTPException 500
              (case int_to_float (weight request) of
                 Inl e \<Rightarrow> str_exc e
               | Inr w \<Rightarrow> ''float division by zero''))"
    by (cases "int_to_float (weight request)")
      (auto simp: get_fitness_plan_def get_fitness_plan_body_height_zero)
next
  show "(\<exists>b c l. fst (get_fitness_plan request p) = Inr \<lparr>bmi = b, category = c, plan = l\<rparr>)
    \<or> (\<exists>e. get_fitness_plan_body request = Inl e
           \<and> fst (get_fitness_plan request p) = Inl (HTTPException 500 (str_exc e)))"
  proof (cases "get_fitness_plan_body request")
    case (Inl e)
    then show ?thesis by (simp add: get_fitness_plan_def)
  next
    case (Inr r)
    then have "fst (get_fitness_plan request p) = Inr \<lparr>bmi = bmi r, category = category r, plan = plan r\<rparr>"
      by (simp add: get_fitness_plan_def)
    then show ?thesis by blast
  qed
qed

lemma fitness_negative_height:
  "get_fitness_plan_body \<lparr>height = - 180, weight = 81, goal = ''''\<rparr> =
     Inr \<lparr>bmi = Finite 25, category = ''Overweight'', plan = plan_general\<rparr>"
  by (simp add: get_fitness_plan_body_def float_eval)

lemma fitness_negative_weight:
  "get_fitness_plan_body \<lparr>height = 180, weight = - 81, goal = ''''\<rparr> =
     Inr \<lparr>bmi = Finite (- 25), category = ''Underweight'', plan = plan_general\<rparr>"
  by (simp add: get_fitness_plan_body_def float_eval)

lemma int_to_float_81: "int_to_float 81 = Inr (Finite 81)"
  by (simp add: float_eval)

text \<open>
  Height \<open>0\<close> with weight \<open>81\<close>: error 500, \<open>float division by zero\<close>. A negative height
  and a negative weight are not rejected: both are answered.
\<close>

theorem get_fitness_plan_faults_witness:
  "fst (get_fitness_plan \<lparr>height = 0, weight = 81, goal = ''''\<rparr> \<lparr>heap = [], random_state = 0\<rparr>) =
     Inl (HTTPException 500 ''float division by zero'')
 \<and> fst (get_fitness_plan \<lparr>height = - 180, weight = 81, goal = ''''\<rparr> \<lparr>heap = [], random_state = 0\<rparr>) =
     Inr \<lparr>bmi = Finite 25, category = ''Overweight'', plan = plan_general\<rparr>
 \<and> fst (get_fitness_plan \<lparr>height = 180, weight = - 81, goal = ''''\<rparr> \<lparr>heap = [], random_state = 0\<rparr>) =
     Inr \<lparr>bmi = Finite (- 25), category = ''Underweight'', plan = plan_general\<rparr>"
  using get_fitness_plan_faults [of "\<lparr>height = 0, weight = 81, goal = ''''\<rparr>" "\<lparr>heap = [], random_state = 0\<rparr>"]
  by (simp add: int_to_float_81 get_fitness_plan_def fitness_negative_height fitness_negative_weight)

end
